theory Spec2Isabelle
  imports Main "HOL-Library.Word"
begin

section \<open>Data model\<close>

text \<open>
  The repository holds two versions of the class \<open>PixelSocket\<close>: the primary one
  (Zstandard + MessagePack frames) and a legacy one (raw, JSON and base64 frames).
  Both keep the same fields; their methods are embedded below, the legacy ones under
  the prefix \<open>legacy_\<close> where they differ from the primary ones.

  A \<open>Uint8Array\<close> is a list of bytes. The Numbers of the configuration (delays, the
  attempt limit), the clock and the two counters that grow by one per event
  (\<open>imagesReceived\<close>, \<open>reconnectAttempts\<close>) are modelled as \<open>int\<close>. Numbers that
  come out of a frame are followed more closely, since the sender chooses them.
\<close>

type_synonym byte = "8 word"
type_synonym bytes = "byte list"

text \<open>A thrown JavaScript value: an instance of \<open>Error\<close> with its message, or anything else.\<close>

datatype jserror = JsError string | Thrown string

text \<open>\<open>error instanceof Error ? error : new Error(dflt)\<close>\<close>

fun toError :: "string \<Rightarrow> jserror \<Rightarrow> jserror" where
  "toError dflt (JsError m) = JsError m"
| "toError dflt (Thrown v) = JsError dflt"

fun errorMessage :: "jserror \<Rightarrow> string" where
  "errorMessage (JsError m) = m"
| "errorMessage (Thrown v) = v"

record PixelSocketOptions =
  url :: string
  saveDirectory :: "string option"
  autoReconnect :: bool
  reconnectDelay :: int
  maxReconnectAttempts :: int

text \<open>
  A Number as far as the model follows it: \<open>Exact n\<close> is the integer \<open>n\<close>, held exactly,
  which a double does for \<open>|n| \<le> 2^53\<close>; \<open>Inexact\<close> is any other Number (a fraction, a
  value beyond that range, \<open>NaN\<close>, an infinity). A sum is followed only while it stays
  exact.
\<close>

datatype jsnumber = Exact int | Inexact

definition safe :: "int \<Rightarrow> bool" where
  "safe n \<longleftrightarrow> \<bar>n\<bar> \<le> 9007199254740992"

fun addNumber :: "jsnumber \<Rightarrow> jsnumber \<Rightarrow> jsnumber" where
  "addNumber (Exact a) (Exact b) = (if safe (a + b) then Exact (a + b) else Inexact)"
| "addNumber x y = Inexact"

text \<open>
  A numeric field of an unpacked payload. The decoder runs with \<open>useBigInt64\<close>, so a
  64-bit MessagePack integer arrives as a BigInt and every other number as a Number:
  \<open>MNumber n\<close> is the Number \<open>n\<close>, an integer with \<open>|n| \<le> 2^53\<close>; \<open>MOther t\<close> is any other
  Number, kept by the text a template literal prints for it (\<open>1.5\<close>, \<open>1e+21\<close>, \<open>NaN\<close>);
  \<open>MBigInt b\<close> is the BigInt \<open>b\<close>; \<open>MUndefined\<close> is a field the payload does not have.
\<close>

datatype msgnum = MNumber int | MOther string | MBigInt int | MUndefined

text \<open>
  \<open>connectedAt\<close> is a reference to a \<open>Date\<close> object (an address of the date store),
  absent until the first open.
\<close>

record ConnectionStats =
  imagesReceived :: int
  bytesReceived :: jsnumber
  connectedAt :: "nat option"
  isConnected :: bool
  reconnectAttempts :: int

record NotificationFromPixelSocket =
  jobId :: string
  blobData :: "bytes option"
  imageLength :: msgnum
  fileExtension :: string
  mimeType :: string
  objectUrl :: "string option"
  secretToken :: string
  timestamp :: msgnum
  promptParams :: "(string \<times> string) list option"

text \<open>
  What \<open>msgpackDecode\<close> hands back, as far as \<open>handleMessage\<close> looks at it: a falsy
  value (\<open>!object\<close> holds), or a truthy value with its \<open>type\<close> property (absent when it
  has none or it is not a string) and its \<open>payload\<close> property (absent when \<open>undefined\<close>
  or \<open>null\<close>). The string fields of a present payload are taken at their declared
  type.
\<close>

record decoded_object =
  otype :: "string option"
  opayload :: "NotificationFromPixelSocket option"

datatype unpacked = Falsy | Obj decoded_object

text \<open>
  The metadata of the legacy class, with the fields its methods read. The value under
  \<open>timestamp\<close> is a \<open>Date\<close>, known by its time value (epoch milliseconds, an integer of
  at most 8.64e15 in size, or none for an invalid date), or it is something else: the
  JSON envelope \<open>{image, metadata}\<close> hands \<open>parsed.metadata\<close> over as it was parsed, and
  JSON has no dates, so a timestamp found there is \<open>null\<close> (\<open>TsNull\<close>) or a number, a string,
  a boolean, an array or an object (\<open>TsValue\<close>). \<open>mformat\<close> is the text of a truthy \<open>format\<close>, absent when it is
  falsy. In \<open>Partial<ImageMetadata>\<close> every field may be absent.
\<close>

datatype tsfield = TsDate "int option" | TsNull | TsValue

record ImageMetadata =
  mtimestamp :: tsfield
  mformat :: "string option"
  mmimeType :: "string option"
  mfilename :: "string option"

record PartialImageMetadata =
  ptimestamp :: "tsfield option"
  pformat :: "string option"
  pmimeType :: "string option"
  pfilename :: "string option"

datatype readyState = CONNECTING | OPEN | CLOSING | CLOSED

datatype timer = Timeout int | Interval int

datatype msgdata = ArrayBuffer bytes | TextFrame string

text \<open>
  Everything the class does to the outside: console, callbacks, transport, timers, files.
  A line written to the console is kept by its kind and its interpolated values; \<open>render\<close>
  below gives its text.
\<close>

datatype logline =
    LogConnecting string
  | LogConnected string
  | LogDisconnected int string
  | LogReconnecting int string
  | LogSentPing
  | LogReceivedImage int msgnum
  | LogSavedImage string
  | LogNotJson
  | ErrSocket
  | ErrSendingPing
  | ErrReconnectFailed
  | ErrZstdInit
  | ErrDecompressAndUnpack
  | ErrClientFailed
  | ErrProcessing
  | ErrSaving

datatype effect =
    ConsoleLog logline
  | ConsoleError logline
  | CbConnect
  | CbDisconnect int string
  | CbError string
  | CbImage bytes ImageMetadata
  | WsNew nat string
  | WsSend nat msgdata
  | WsClose nat
  | SetTimeout nat int
  | ClearTimeout nat
  | SetInterval nat int
  | ClearInterval nat
  | Mkdir string
  | WriteFile string bytes

text \<open>
  What the platform and the libraries decide in one step: the clock, whether a platform
  call throws, and the two library functions of the codec.
\<close>

record env =
  now :: int
  wsCtorThrows :: "jserror option"
  wsSendThrows :: "jserror option"
  mkdirThrows :: "jserror option"
  writeFileThrows :: "jserror option"
  zstdInitThrows :: "jserror option"
  zstdDecompress :: "bytes \<Rightarrow> jserror + bytes"
  msgpackDecode :: "bytes \<Rightarrow> jserror + unpacked"

text \<open>
  The fields of the instance, followed by the part of the runtime it lives in: the object
  store of stats records (\<open>this.stats\<close> is the address \<open>statsRef\<close>), the references handed
  to the caller, the store of \<open>Date\<close> objects, the sockets created so far, the pending
  timers, and the effects so far, each with the stats a \<open>getStats()\<close> would have seen when
  it happened.
\<close>

record world =
  socket :: "nat option"
  options :: PixelSocketOptions
  statsRef :: nat
  reconnectTimeout :: "nat option"
  pingTimeout :: "nat option"
  shouldReconnect :: bool
  zstdInitialized :: bool
  objs :: "nat \<Rightarrow> ConnectionStats"
  nextObj :: nat
  handed :: "nat list"
  dates :: "nat \<Rightarrow> int"
  nextDate :: nat
  socks :: "nat \<Rightarrow> readyState"
  nextSock :: nat
  timers :: "nat \<Rightarrow> timer option"
  nextTimer :: nat
  trace :: "(effect \<times> ConnectionStats) list"

section \<open>Runtime primitives\<close>

definition stats :: "world \<Rightarrow> ConnectionStats" where
  "stats w = objs w (statsRef w)"

definition upd_stats :: "(ConnectionStats \<Rightarrow> ConnectionStats) \<Rightarrow> world \<Rightarrow> world" where
  "upd_stats f w = w\<lparr>objs := (objs w)(statsRef w := f (objs w (statsRef w)))\<rparr>"

definition emit :: "effect \<Rightarrow> world \<Rightarrow> world" where
  "emit e w = w\<lparr>trace := trace w @ [(e, stats w)]\<rparr>"

definition effects :: "world \<Rightarrow> effect list" where
  "effects w = map fst (trace w)"

text \<open>\<open>clearTimeout\<close> and \<open>clearInterval\<close>: the timer, if pending, is removed.\<close>

definition clearTimeout :: "nat \<Rightarrow> world \<Rightarrow> world" where
  "clearTimeout i w = emit (ClearTimeout i) (w\<lparr>timers := (timers w)(i := None)\<rparr>)"

definition clearInterval :: "nat \<Rightarrow> world \<Rightarrow> world" where
  "clearInterval i w = emit (ClearInterval i) (w\<lparr>timers := (timers w)(i := None)\<rparr>)"

text \<open>\<open>setTimeout\<close> and \<open>setInterval\<close> return a fresh identifier.\<close>

definition setTimeout :: "int \<Rightarrow> world \<Rightarrow> nat \<times> world" where
  "setTimeout d w =
     (nextTimer w,
      emit (SetTimeout (nextTimer w) d)
        (w\<lparr>timers := (timers w)(nextTimer w \<mapsto> Timeout d), nextTimer := Suc (nextTimer w)\<rparr>))"

definition setInterval :: "int \<Rightarrow> world \<Rightarrow> nat \<times> world" where
  "setInterval d w =
     (nextTimer w,
      emit (SetInterval (nextTimer w) d)
        (w\<lparr>timers := (timers w)(nextTimer w \<mapsto> Interval d), nextTimer := Suc (nextTimer w)\<rparr>))"

text \<open>\<open>socket.send(data)\<close>: throws when the platform says so, otherwise the frame goes out.\<close>

definition ws_send :: "env \<Rightarrow> nat \<Rightarrow> msgdata \<Rightarrow> world \<Rightarrow> jserror option \<times> world" where
  "ws_send ev sid d w =
     (case wsSendThrows ev of
        Some e \<Rightarrow> (Some e, w)
      | None \<Rightarrow> (None, emit (WsSend sid d) w))"

text \<open>\<open>socket.close()\<close>: an open or connecting socket starts closing; it never throws.\<close>

definition ws_close :: "nat \<Rightarrow> world \<Rightarrow> world" where
  "ws_close sid w =
     emit (WsClose sid)
       (if socks w sid = OPEN \<or> socks w sid = CONNECTING
        then w\<lparr>socks := (socks w)(sid := CLOSING)\<rparr> else w)"

text \<open>Decimal text of a number, as a template literal prints an integer.\<close>

definition digit :: "nat \<Rightarrow> char" where
  "digit n = ''0123456789'' ! n"

function decimal :: "nat \<Rightarrow> string" where
  "decimal n = (if n < 10 then [digit n] else decimal (n div 10) @ [digit (n mod 10)])"
  by pat_completeness auto
termination
  by (relation "measure id") auto

declare decimal.simps [simp del]

definition numberToString :: "int \<Rightarrow> string" where
  "numberToString i = (if i < 0 then CHR ''-'' # decimal (nat (- i)) else decimal (nat i))"

text \<open>
  The text a template literal prints for a numeric field, and whether the field is
  truthy. For \<open>MNumber n\<close> the text is right for \<open>|n| \<le> 2^53\<close>, the range it stands for.
\<close>

fun fieldText :: "msgnum \<Rightarrow> string" where
  "fieldText (MNumber n) = numberToString n"
| "fieldText (MOther t) = t"
| "fieldText (MBigInt b) = numberToString b"
| "fieldText MUndefined = ''undefined''"

fun fieldTruthy :: "msgnum \<Rightarrow> bool" where
  "fieldTruthy (MNumber n) = (n \<noteq> 0)"
| "fieldTruthy (MOther t) = (t \<noteq> ''NaN'')"
| "fieldTruthy (MBigInt b) = (b \<noteq> 0)"
| "fieldTruthy MUndefined = False"

text \<open>
  \<open>x += field\<close> for a Number \<open>x\<close>: a BigInt operand throws, a missing one gives \<open>NaN\<close>.
\<close>

fun plusField :: "jsnumber \<Rightarrow> msgnum \<Rightarrow> jserror + jsnumber" where
  "plusField x (MNumber n) = Inr (addNumber x (if safe n then Exact n else Inexact))"
| "plusField x (MOther t) = Inr Inexact"
| "plusField x (MBigInt b) =
     Inl (JsError ''Cannot mix BigInt and other types, use explicit conversions'')"
| "plusField x MUndefined = Inr Inexact"

text \<open>The text of a console line.\<close>

fun render :: "logline \<Rightarrow> string" where
  "render (LogConnecting u) = ''[PixelSocket] Connecting to: '' @ u"
| "render (LogConnected u) = ''[PixelSocket] Connected to '' @ u"
| "render (LogDisconnected code reason) =
     ''[PixelSocket] Disconnected: '' @ numberToString code @ '' - '' @ reason"
| "render (LogReconnecting delay attemptText) =
     ''[PixelSocket] Reconnecting in '' @ numberToString delay @ ''ms ('' @ attemptText @ '')''"
| "render LogSentPing = ''[PixelSocket] Sent ping''"
| "render (LogReceivedImage n len) =
     ''[PixelSocket] Received image #'' @ numberToString n @ '' ('' @ fieldText len @
     '' bytes)''"
| "render (LogSavedImage filepath) = ''[PixelSocket] Saved image to '' @ filepath"
| "render LogNotJson = ''[PixelSocket] Message is not JSON, attempting base64 decode''"
| "render ErrSocket = ''[PixelSocket] Error:''"
| "render ErrSendingPing = ''[PixelSocket] Error sending ping:''"
| "render ErrReconnectFailed = ''[PixelSocket] Reconnection failed:''"
| "render ErrZstdInit = ''[Zstd] Initialization failed:''"
| "render ErrDecompressAndUnpack =
     ''[decompressAndUnpack] Failed to decompress or unpack message:''"
| "render ErrClientFailed = ''[Client] Failed to decompress or unpack message''"
| "render ErrProcessing = ''[PixelSocket] Error processing message:''"
| "render ErrSaving = ''[PixelSocket] Error saving image:''"


section \<open>The primary class\<close>

text \<open>
  Each method takes the world and returns the new one, with what it threw, if anything.
  A handler runs to its end before the next input is taken: the suspension points of an
  \<open>async\<close> method (\<open>await\<close>) are sequenced inside the handler.
  The caller's callbacks are recorded as effects; they are taken to return normally and
  not to call back into the instance.
\<close>

text \<open>The constructor, after the defaults have been merged with the caller's options.\<close>

definition defaultOptions :: "string \<Rightarrow> PixelSocketOptions" where
  "defaultOptions u =
     \<lparr>url = u, saveDirectory = Some ''./received_images'', autoReconnect = True,
      reconnectDelay = 5000, maxReconnectAttempts = 10\<rparr>"

definition initialStats :: ConnectionStats where
  "initialStats =
     \<lparr>imagesReceived = 0, bytesReceived = Exact 0, connectedAt = None, isConnected = False,
      reconnectAttempts = 0\<rparr>"

definition PixelSocket :: "PixelSocketOptions \<Rightarrow> world" where
  "PixelSocket opts =
     \<lparr>socket = None, options = opts, statsRef = 0, reconnectTimeout = None,
      pingTimeout = None, shouldReconnect = True, zstdInitialized = False,
      objs = (\<lambda>_. initialStats), nextObj = 1, handed = [],
      dates = (\<lambda>_. 0), nextDate = 0,
      socks = (\<lambda>_. CLOSED), nextSock = 0,
      timers = (\<lambda>_. None), nextTimer = 0,
      trace = []\<rparr>"

definition connect :: "env \<Rightarrow> world \<Rightarrow> jserror option \<times> world" where
  "connect ev w =
     (let w1 = emit (ConsoleLog (LogConnecting (url (options w)))) w
      in case wsCtorThrows ev of
           Some e \<Rightarrow>
             (let err = toError ''Failed to connect'' e
              in (Some err, emit (CbError (errorMessage err)) w1))
         | None \<Rightarrow>
             (None,
              emit (WsNew (nextSock w1) (url (options w1)))
                (w1\<lparr>socket := Some (nextSock w1),
                    socks := (socks w1)(nextSock w1 := CONNECTING),
                    nextSock := Suc (nextSock w1)\<rparr>)))"

definition pingMessage :: string where
  \<open>pingMessage = ''{"type":"ping"}''\<close>

definition subscribeMessage :: string where
  \<open>subscribeMessage = ''{"type":"subscribe","mode":"all"}''\<close>

definition startPingInterval :: "world \<Rightarrow> world" where
  "startPingInterval w =
     (let w1 = (case pingTimeout w of Some i \<Rightarrow> clearInterval i w | None \<Rightarrow> w);
          (i, w2) = setInterval 20000 w1
      in w2\<lparr>pingTimeout := Some i\<rparr>)"

text \<open>The callback of the keepalive interval.\<close>

definition pingTick :: "env \<Rightarrow> world \<Rightarrow> world" where
  "pingTick ev w =
     (case socket w of
        None \<Rightarrow> w
      | Some sid \<Rightarrow>
          if socks w sid = OPEN then
            (case ws_send ev sid (TextFrame pingMessage) w of
               (None, w1) \<Rightarrow> emit (ConsoleLog LogSentPing) w1
             | (Some e, w1) \<Rightarrow> emit (ConsoleError ErrSendingPing) w1)
          else w)"

definition newDate :: "env \<Rightarrow> world \<Rightarrow> nat \<times> world" where
  "newDate ev w =
     (nextDate w, w\<lparr>dates := (dates w)(nextDate w := now ev), nextDate := Suc (nextDate w)\<rparr>)"

definition onopen :: "env \<Rightarrow> world \<Rightarrow> jserror option \<times> world" where
  "onopen ev w =
     (let w1 = upd_stats (\<lambda>s. s\<lparr>isConnected := True\<rparr>) w;
          (d, w2) = newDate ev w1;
          w3 = upd_stats (\<lambda>s. s\<lparr>connectedAt := Some d\<rparr>) w2;
          w4 = upd_stats (\<lambda>s. s\<lparr>reconnectAttempts := 0\<rparr>) w3;
          w5 = emit (ConsoleLog (LogConnected (url (options w4)))) w4
      in case socket w5 of
           None \<Rightarrow> (Some (JsError ''Cannot read properties of null (reading 'send')''), w5)
         | Some sid \<Rightarrow>
             (case ws_send ev sid (TextFrame subscribeMessage) w5 of
                (Some e, w6) \<Rightarrow> (Some e, w6)
              | (None, w6) \<Rightarrow> (None, emit CbConnect (startPingInterval w6))))"

definition onerror :: "string option \<Rightarrow> world \<Rightarrow> world" where
  "onerror msg w =
     (let m = ''WebSocket error: '' @
                (case msg of None \<Rightarrow> ''Unknown error''
                 | Some t \<Rightarrow> if t = [] then ''Unknown error'' else t)
      in emit (CbError m) (emit (ConsoleError ErrSocket) w))"

definition scheduleReconnect :: "world \<Rightarrow> world" where
  "scheduleReconnect w =
     (let w1 = (case reconnectTimeout w of Some i \<Rightarrow> clearTimeout i w | None \<Rightarrow> w);
          w2 = upd_stats (\<lambda>s. s\<lparr>reconnectAttempts := reconnectAttempts s + 1\<rparr>) w1;
          delay = (if reconnectAttempts (stats w2) \<le> maxReconnectAttempts (options w2)
                   then reconnectDelay (options w2) else 60000);
          attemptText =
            (if reconnectAttempts (stats w2) \<le> maxReconnectAttempts (options w2)
             then ''attempt '' @ numberToString (reconnectAttempts (stats w2)) @ ''/'' @
                  numberToString (maxReconnectAttempts (options w2))
             else ''attempt '' @ numberToString (reconnectAttempts (stats w2)) @ '' (ongoing)'');
          w3 = emit (ConsoleLog (LogReconnecting delay attemptText)) w2;
          (i, w4) = setTimeout delay w3
      in w4\<lparr>reconnectTimeout := Some i\<rparr>)"

definition onclose :: "int \<Rightarrow> string \<Rightarrow> world \<Rightarrow> world" where
  "onclose code reason w =
     (let w1 = upd_stats (\<lambda>s. s\<lparr>isConnected := False\<rparr>) w;
          w2 = emit (ConsoleLog (LogDisconnected code reason)) w1;
          w3 = emit (CbDisconnect code reason) w2
      in if shouldReconnect w3 \<and> autoReconnect (options w3)
         then scheduleReconnect w3 else w3)"

text \<open>The callback of the reconnect timer: \<open>this.connect().catch(...)\<close>.\<close>

definition reconnectTick :: "env \<Rightarrow> world \<Rightarrow> world" where
  "reconnectTick ev w =
     (case connect ev w of
        (Some e, w1) \<Rightarrow> emit (ConsoleError ErrReconnectFailed) w1
      | (None, w1) \<Rightarrow> w1)"

definition send :: "env \<Rightarrow> msgdata \<Rightarrow> world \<Rightarrow> jserror option \<times> world" where
  "send ev d w =
     (case socket w of
        None \<Rightarrow> (Some (JsError ''WebSocket is not connected''), w)
      | Some sid \<Rightarrow>
          if socks w sid \<noteq> OPEN then (Some (JsError ''WebSocket is not connected''), w)
          else ws_send ev sid d w)"

definition disconnect :: "world \<Rightarrow> world" where
  "disconnect w =
     (let w1 = w\<lparr>shouldReconnect := False\<rparr>;
          w2 = (case reconnectTimeout w1 of
                  Some i \<Rightarrow> (clearTimeout i w1)\<lparr>reconnectTimeout := None\<rparr>
                | None \<Rightarrow> w1);
          w3 = (case pingTimeout w2 of
                  Some i \<Rightarrow> (clearInterval i w2)\<lparr>pingTimeout := None\<rparr>
                | None \<Rightarrow> w2);
          w4 = (case socket w3 of
                  Some sid \<Rightarrow> (ws_close sid w3)\<lparr>socket := None\<rparr>
                | None \<Rightarrow> w3)
      in upd_stats (\<lambda>s. s\<lparr>isConnected := False\<rparr>) w4)"

text \<open>\<open>return { ...this.stats }\<close>: a new object with the fields of \<open>this.stats\<close>.\<close>

definition getStats :: "world \<Rightarrow> nat \<times> world" where
  "getStats w =
     (nextObj w,
      w\<lparr>objs := (objs w)(nextObj w := objs w (statsRef w)),
        nextObj := Suc (nextObj w),
        handed := nextObj w # handed w\<rparr>)"

definition isConnected_m :: "world \<Rightarrow> bool" where
  "isConnected_m w = isConnected (stats w)"


subsection \<open>Codec and frame handling\<close>

text \<open>\<open>ensureZstdInit\<close>: a failure is logged and thrown again.\<close>

definition ensureZstdInit :: "env \<Rightarrow> world \<Rightarrow> jserror option \<times> world" where
  "ensureZstdInit ev w =
     (if \<not> zstdInitialized w then
        (case zstdInitThrows ev of
           Some e \<Rightarrow> (Some e, emit (ConsoleError ErrZstdInit) w)
         | None \<Rightarrow> (None, w\<lparr>zstdInitialized := True\<rparr>))
      else (None, w))"

text \<open>\<open>decompressAndUnpack\<close>: \<open>None\<close> is the \<open>undefined\<close> returned after a caught failure.\<close>

definition decompressAndUnpack :: "env \<Rightarrow> bytes \<Rightarrow> world \<Rightarrow> unpacked option \<times> world" where
  "decompressAndUnpack ev compressed w =
     (case ensureZstdInit ev w of
        (Some e, w1) \<Rightarrow> (None, emit (ConsoleError ErrDecompressAndUnpack) w1)
      | (None, w1) \<Rightarrow>
          (case zstdDecompress ev compressed of
             Inl e \<Rightarrow> (None, emit (ConsoleError ErrDecompressAndUnpack) w1)
           | Inr decompressed \<Rightarrow>
               (case msgpackDecode ev decompressed of
                  Inl e \<Rightarrow> (None, emit (ConsoleError ErrDecompressAndUnpack) w1)
                | Inr object \<Rightarrow> (Some object, w1))))"

text \<open>The save block of \<open>processImage\<close>, with its \<open>try\<close>/\<open>catch\<close>.\<close>

definition saveFailed :: "jserror \<Rightarrow> world \<Rightarrow> world" where
  "saveFailed e w =
     (let err = toError ''Failed to save image'' e
      in emit (CbError (errorMessage err))
           (emit (ConsoleError ErrSaving) w))"

definition fileName :: "env \<Rightarrow> NotificationFromPixelSocket \<Rightarrow> string" where
  "fileName ev payload =
     (if fieldTruthy (timestamp payload) then fieldText (timestamp payload)
      else numberToString (now ev)) @
     ''_'' @ jobId payload @ ''.'' @ fileExtension payload"

definition saveBlock ::
  "env \<Rightarrow> string \<Rightarrow> NotificationFromPixelSocket \<Rightarrow> bytes \<Rightarrow> world \<Rightarrow> world" where
  "saveBlock ev dir payload blob w =
     (case mkdirThrows ev of
        Some e \<Rightarrow> saveFailed e (emit (Mkdir dir) w)
      | None \<Rightarrow>
          (let w1 = emit (Mkdir dir) w;
               filepath = dir @ ''/'' @ fileName ev payload;
               w2 = emit (WriteFile filepath blob) w1
           in case writeFileThrows ev of
                Some e \<Rightarrow> saveFailed e w2
              | None \<Rightarrow> emit (ConsoleLog (LogSavedImage filepath)) w2))"

text \<open>A string is truthy when it is present and not empty.\<close>

fun truthy :: "string option \<Rightarrow> bool" where
  "truthy None = False"
| "truthy (Some t) = (t \<noteq> [])"

text \<open>
  \<open>processImage\<close>: the argument is \<open>object.payload\<close>, absent when the decoded object has
  none; reading \<open>payload.imageLength\<close> then throws, after \<open>imagesReceived++\<close>, and so
  does adding a BigInt to \<open>bytesReceived\<close>.
\<close>

definition processImage ::
  "env \<Rightarrow> NotificationFromPixelSocket option \<Rightarrow> world \<Rightarrow> jserror option \<times> world" where
  "processImage ev payload w =
     (let w1 = upd_stats (\<lambda>s. s\<lparr>imagesReceived := imagesReceived s + 1\<rparr>) w
      in case payload of
           None \<Rightarrow> (Some (JsError ''Cannot read properties of undefined (reading 'imageLength')''), w1)
         | Some p \<Rightarrow>
             (case plusField (bytesReceived (stats w1)) (imageLength p) of
                Inl e \<Rightarrow> (Some e, w1)
              | Inr newBytes \<Rightarrow>
                  (let w2 = upd_stats (\<lambda>s. s\<lparr>bytesReceived := newBytes\<rparr>) w1;
                       w3 = emit (ConsoleLog (LogReceivedImage (imagesReceived (stats w2))
                                              (imageLength p))) w2
                   in if truthy (saveDirectory (options w3)) \<and> blobData p \<noteq> None
                      then (None, saveBlock ev (the (saveDirectory (options w3))) p
                                    (the (blobData p)) w3)
                      else (None, w3))))"

definition notificationType :: string where
  "notificationType = ''notification-from-pixel-socket''"

definition handleMessage :: "env \<Rightarrow> msgdata \<Rightarrow> world \<Rightarrow> world" where
  "handleMessage ev d w =
     (case d of
        TextFrame t \<Rightarrow> w
      | ArrayBuffer compressed \<Rightarrow>
          (case decompressAndUnpack ev compressed w of
             (None, w1) \<Rightarrow> emit (ConsoleError ErrClientFailed) w1
           | (Some Falsy, w1) \<Rightarrow>
               emit (ConsoleError ErrClientFailed) w1
           | (Some (Obj object), w1) \<Rightarrow>
               if otype object = Some notificationType then
                 (case processImage ev (opayload object) w1 of
                    (None, w2) \<Rightarrow> w2
                  | (Some e, w2) \<Rightarrow>
                      (let err = toError ''Failed to process message'' e
                       in emit (CbError (errorMessage err))
                            (emit (ConsoleError ErrProcessing) w2)))
               else w1))"

subsection \<open>Inputs and steps\<close>

text \<open>
  What can happen to an instance: a call of its interface, an event of one of its
  sockets, a timer that fires, or the caller writing the fields of a stats object it was
  handed. An event that cannot occur in the current world (an unknown socket, a timer
  that is not pending, an object the caller does not hold) leaves the world as it is.
\<close>

datatype input =
    Connect
  | Disconnect
  | Send msgdata
  | GetStats
  | IsConnected
  | WsOpen nat
  | WsMessage nat msgdata
  | WsError nat "string option"
  | WsClosed nat int string
  | TimerFire nat
  | MutateSnapshot nat ConnectionStats

datatype retval = Unit | Ref nat | Bool bool

definition outcome :: "jserror option \<times> world \<Rightarrow> (jserror + retval) \<times> world" where
  "outcome r = (case r of (None, w) \<Rightarrow> (Inr Unit, w) | (Some e, w) \<Rightarrow> (Inl e, w))"

definition timerFire :: "env \<Rightarrow> nat \<Rightarrow> world \<Rightarrow> world" where
  "timerFire ev i w =
     (case timers w i of
        None \<Rightarrow> w
      | Some (Timeout d) \<Rightarrow> reconnectTick ev (w\<lparr>timers := (timers w)(i := None)\<rparr>)
      | Some (Interval d) \<Rightarrow> pingTick ev w)"

fun step :: "env \<Rightarrow> input \<Rightarrow> world \<Rightarrow> (jserror + retval) \<times> world" where
  "step ev Connect w = outcome (connect ev w)"
| "step ev Disconnect w = (Inr Unit, disconnect w)"
| "step ev (Send d) w = outcome (send ev d w)"
| "step ev GetStats w = (case getStats w of (a, w1) \<Rightarrow> (Inr (Ref a), w1))"
| "step ev IsConnected w = (Inr (Bool (isConnected_m w)), w)"
| "step ev (WsOpen sid) w =
     (if sid < nextSock w \<and> socks w sid = CONNECTING
      then outcome (onopen ev (w\<lparr>socks := (socks w)(sid := OPEN)\<rparr>))
      else (Inr Unit, w))"
| "step ev (WsMessage sid d) w =
     (if sid < nextSock w \<and> (socks w sid = OPEN \<or> socks w sid = CLOSING)
      then (Inr Unit, handleMessage ev d w)
      else (Inr Unit, w))"
| "step ev (WsError sid msg) w =
     (if sid < nextSock w then (Inr Unit, onerror msg w) else (Inr Unit, w))"
| "step ev (WsClosed sid code reason) w =
     (if sid < nextSock w \<and> socks w sid \<noteq> CLOSED
      then (Inr Unit, onclose code reason (w\<lparr>socks := (socks w)(sid := CLOSED)\<rparr>))
      else (Inr Unit, w))"
| "step ev (TimerFire i) w = (Inr Unit, timerFire ev i w)"
| "step ev (MutateSnapshot a v) w =
     (if a \<in> set (handed w) then (Inr Unit, w\<lparr>objs := (objs w)(a := v)\<rparr>)
      else (Inr Unit, w))"

fun run :: "(env \<times> input) list \<Rightarrow> world \<Rightarrow> world" where
  "run [] w = w"
| "run (x # xs) w = run xs (snd (step (fst x) (snd x) w))"


section \<open>The legacy class\<close>

text \<open>
  The legacy class has the fields, \<open>connect\<close>, \<open>startPingInterval\<close>, \<open>send\<close>,
  \<open>disconnect\<close>, \<open>getStats\<close> and \<open>isConnected\<close> of the primary one, word for word. It
  differs in its close handler, in \<open>scheduleReconnect\<close> and in the handling of frames.
  Its decoding paths (binary frame, the two JSON messages, bare base64 text) all end in
  \<open>processImage\<close>.
\<close>

definition legacy_defaultOptions :: "string \<Rightarrow> PixelSocketOptions" where
  "legacy_defaultOptions u =
     \<lparr>url = u, saveDirectory = Some ''./images'', autoReconnect = True,
      reconnectDelay = 5000, maxReconnectAttempts = 10\<rparr>"

definition legacy_scheduleReconnect :: "world \<Rightarrow> world" where
  "legacy_scheduleReconnect w =
     (let w1 = (case reconnectTimeout w of Some i \<Rightarrow> clearTimeout i w | None \<Rightarrow> w);
          w2 = upd_stats (\<lambda>s. s\<lparr>reconnectAttempts := reconnectAttempts s + 1\<rparr>) w1;
          w3 = emit (ConsoleLog (LogReconnecting (reconnectDelay (options w2))
                             (''attempt '' @ numberToString (reconnectAttempts (stats w2)) @ ''/'' @
                              numberToString (maxReconnectAttempts (options w2))))) w2;
          (i, w4) = setTimeout (reconnectDelay (options w3)) w3
      in w4\<lparr>reconnectTimeout := Some i\<rparr>)"

definition legacy_onclose :: "int \<Rightarrow> string \<Rightarrow> world \<Rightarrow> world" where
  "legacy_onclose code reason w =
     (let w1 = upd_stats (\<lambda>s. s\<lparr>isConnected := False\<rparr>) w;
          w2 = emit (ConsoleLog (LogDisconnected code reason)) w1;
          w3 = emit (CbDisconnect code reason) w2
      in if shouldReconnect w3 \<and> autoReconnect (options w3) \<and>
            reconnectAttempts (stats w3) < maxReconnectAttempts (options w3)
         then legacy_scheduleReconnect w3 else w3)"

text \<open>\<open>data[i]\<close>: \<open>undefined\<close> beyond the end, which equals no byte.\<close>

definition byteIs :: "bytes \<Rightarrow> nat \<Rightarrow> byte \<Rightarrow> bool" where
  "byteIs d i b = (i < length d \<and> d ! i = b)"

definition detectImageFormat :: "bytes \<Rightarrow> string" where
  "detectImageFormat d =
     (if byteIs d 0 0xFF \<and> byteIs d 1 0xD8 \<and> byteIs d 2 0xFF then ''jpg''
      else if byteIs d 0 0x89 \<and> byteIs d 1 0x50 \<and> byteIs d 2 0x4E \<and> byteIs d 3 0x47
        then ''png''
      else if byteIs d 0 0x52 \<and> byteIs d 1 0x49 \<and> byteIs d 2 0x46 \<and> byteIs d 3 0x46
        then ''webp''
      else if byteIs d 0 0x47 \<and> byteIs d 1 0x49 \<and> byteIs d 2 0x46 then ''gif''
      else ''bin'')"

text \<open>\<open>metadata.timestamp.getTime()\<close> as a template literal prints it.\<close>

fun timeText :: "int option \<Rightarrow> string" where
  "timeText (Some ms) = numberToString ms"
| "timeText None = ''NaN''"

definition legacy_fileName :: "bytes \<Rightarrow> int option \<Rightarrow> ImageMetadata \<Rightarrow> string" where
  "legacy_fileName imageData t metadata =
     timeText t @ ''.'' @
     (if truthy (mformat metadata) then the (mformat metadata)
      else detectImageFormat imageData)"

text \<open>
  \<open>saveImage\<close>: after the directory is made, \<open>getTime\<close> is called on the timestamp, which
  throws unless it is a \<open>Date\<close>; the \<open>catch\<close> reports it like any other failure.
\<close>

definition legacy_saveImage :: "env \<Rightarrow> bytes \<Rightarrow> ImageMetadata \<Rightarrow> world \<Rightarrow> world" where
  "legacy_saveImage ev imageData metadata w =
     (let dir = (case saveDirectory (options w) of Some d \<Rightarrow> d | None \<Rightarrow> [])
      in case mkdirThrows ev of
           Some e \<Rightarrow> saveFailed e (emit (Mkdir dir) w)
         | None \<Rightarrow>
             (let w1 = emit (Mkdir dir) w
              in case mtimestamp metadata of
                   TsValue \<Rightarrow>
                     saveFailed (JsError ''metadata.timestamp.getTime is not a function'') w1
                 | TsNull \<Rightarrow>
                     saveFailed (JsError ''Cannot read properties of null (reading 'getTime')'') w1
                 | TsDate t \<Rightarrow>
                     (let filepath = dir @ ''/'' @ legacy_fileName imageData t metadata;
                          w2 = emit (WriteFile filepath imageData) w1
                      in case writeFileThrows ev of
                           Some e \<Rightarrow> saveFailed e w2
                         | None \<Rightarrow> emit (ConsoleLog (LogSavedImage filepath)) w2)))"

text \<open>\<open>{ timestamp: new Date(), ...metadata }\<close>\<close>

definition fullMetadata :: "env \<Rightarrow> PartialImageMetadata option \<Rightarrow> ImageMetadata" where
  "fullMetadata ev metadata =
     (case metadata of
        None \<Rightarrow>
          \<lparr>mtimestamp = TsDate (Some (now ev)), mformat = None, mmimeType = None,
           mfilename = None\<rparr>
      | Some m \<Rightarrow>
          \<lparr>mtimestamp = (case ptimestamp m of Some t \<Rightarrow> t | None \<Rightarrow> TsDate (Some (now ev))),
           mformat = pformat m, mmimeType = pmimeType m, mfilename = pfilename m\<rparr>)"

definition legacy_processImage ::
  "env \<Rightarrow> bytes \<Rightarrow> PartialImageMetadata option \<Rightarrow> world \<Rightarrow> world" where
  "legacy_processImage ev imageData metadata w =
     (let full = fullMetadata ev metadata;
          w1 = upd_stats (\<lambda>s. s\<lparr>imagesReceived := imagesReceived s + 1\<rparr>) w;
          w2 = upd_stats (\<lambda>s. s\<lparr>bytesReceived :=
                 addNumber (bytesReceived s) (Exact (int (length imageData)))\<rparr>) w1;
          w3 = emit (ConsoleLog (LogReceivedImage (imagesReceived (stats w2))
                                 (MNumber (int (length imageData))))) w2;
          w4 = emit (CbImage imageData full) w3
      in if truthy (saveDirectory (options w4))
         then legacy_saveImage ev imageData full w4 else w4)"

text \<open>
  The frames that the legacy \<open>handleMessage\<close> takes to \<open>processImage\<close>, each with the
  bytes its decoder gave (\<open>new Uint8Array\<close> or \<open>base64ToUint8Array\<close>):
  a binary frame; a text frame that \<open>JSON.parse\<close> rejects and that is base64; the JSON
  envelope \<open>{image, metadata}\<close>; the JSON message \<open>image-generated\<close> that passed
  \<open>isValidImageGeneratedMessage\<close>. Any other text frame ends in a console line only.

  Of \<open>parsed.metadata\<close> the model keeps whether it has a \<open>timestamp\<close> and its \<open>format\<close>,
  \<open>mimeType\<close> and \<open>filename\<close>. Of the validated \<open>data\<close> of an \<open>image-generated\<close> message
  it keeps \<open>mimeType\<close>, \<open>imageInfo?.filename\<close> and \<open>timestamp\<close>, a Number that JSON can
  hold: zero, another finite number by its integer part (which is what \<open>new Date\<close> keeps
  of it), or an infinity (a literal such as \<open>1e999\<close>).
\<close>

datatype jsonkey = KeyAbsent | KeyNull | KeyValue

record json_metadata =
  jtimestamp :: jsonkey
  jformat :: "string option"
  jmimeType :: "string option"
  jfilename :: "string option"

datatype jsonnumber = JZero | JFinite int | JInfinite

record generated_data =
  gmimeType :: string
  gtimestamp :: jsonnumber
  gfilename :: "string option"

datatype legacy_frame =
    BinaryFrame bytes
  | Base64Frame bytes
  | EnvelopeFrame bytes json_metadata
  | ImageGeneratedFrame bytes generated_data

text \<open>\<open>parsed.metadata\<close> read as a \<open>Partial<ImageMetadata>\<close>.\<close>

definition parsedMetadata :: "json_metadata \<Rightarrow> PartialImageMetadata" where
  "parsedMetadata m =
     \<lparr>ptimestamp = (case jtimestamp m of
                      KeyAbsent \<Rightarrow> None | KeyNull \<Rightarrow> Some TsNull | KeyValue \<Rightarrow> Some TsValue),
      pformat = jformat m, pmimeType = jmimeType m, pfilename = jfilename m\<rparr>"

text \<open>\<open>s.split(c)\<close>\<close>

fun split :: "char \<Rightarrow> string \<Rightarrow> string list" where
  "split c [] = [[]]"
| "split c (x # xs) =
     (if x = c then [] # split c xs
      else (case split c xs of p # ps \<Rightarrow> (x # p) # ps | [] \<Rightarrow> [[x]]))"

text \<open>\<open>data.mimeType.split("/")[1] || "png"\<close>\<close>

definition mimeFormat :: "string \<Rightarrow> string" where
  "mimeFormat m =
     (case split CHR ''/'' m of
        a # b # rest \<Rightarrow> if b \<noteq> [] then b else ''png''
      | _ \<Rightarrow> ''png'')"

text \<open>
  \<open>new Date(data.timestamp || Date.now())\<close>: the time value of a \<open>Date\<close> is an integer of
  at most 8.64e15 in size; beyond that the date is invalid.
\<close>

definition generatedDate :: "env \<Rightarrow> jsonnumber \<Rightarrow> tsfield" where
  "generatedDate ev t =
     (case t of
        JZero \<Rightarrow> TsDate (Some (now ev))
      | JFinite i \<Rightarrow> TsDate (if \<bar>i\<bar> \<le> 8640000000000000 then Some i else None)
      | JInfinite \<Rightarrow> TsDate None)"

text \<open>The metadata that \<open>handleImageGeneratedMessage\<close> builds.\<close>

definition generatedMetadata :: "env \<Rightarrow> generated_data \<Rightarrow> PartialImageMetadata" where
  "generatedMetadata ev g =
     \<lparr>ptimestamp = Some (generatedDate ev (gtimestamp g)),
      pformat = Some (mimeFormat (gmimeType g)),
      pmimeType = Some (gmimeType g),
      pfilename = gfilename g\<rparr>"

definition legacy_handleMessage :: "env \<Rightarrow> legacy_frame \<Rightarrow> world \<Rightarrow> world" where
  "legacy_handleMessage ev frame w =
     (case frame of
        BinaryFrame imageData \<Rightarrow> legacy_processImage ev imageData None w
      | Base64Frame imageData \<Rightarrow>
          legacy_processImage ev imageData None (emit (ConsoleLog LogNotJson) w)
      | EnvelopeFrame imageData m \<Rightarrow>
          legacy_processImage ev imageData (Some (parsedMetadata m)) w
      | ImageGeneratedFrame imageData g \<Rightarrow>
          legacy_processImage ev imageData (Some (generatedMetadata ev g)) w)"

datatype legacy_input =
    LConnect
  | LDisconnect
  | LWsOpen nat
  | LWsMessage nat legacy_frame
  | LWsError nat "string option"
  | LWsClosed nat int string
  | LTimerFire nat

fun legacy_step :: "env \<Rightarrow> legacy_input \<Rightarrow> world \<Rightarrow> (jserror + retval) \<times> world" where
  "legacy_step ev LConnect w = outcome (connect ev w)"
| "legacy_step ev LDisconnect w = (Inr Unit, disconnect w)"
| "legacy_step ev (LWsOpen sid) w =
     (if sid < nextSock w \<and> socks w sid = CONNECTING
      then outcome (onopen ev (w\<lparr>socks := (socks w)(sid := OPEN)\<rparr>))
      else (Inr Unit, w))"
| "legacy_step ev (LWsMessage sid frame) w =
     (if sid < nextSock w \<and> (socks w sid = OPEN \<or> socks w sid = CLOSING)
      then (Inr Unit, legacy_handleMessage ev frame w)
      else (Inr Unit, w))"
| "legacy_step ev (LWsError sid msg) w =
     (if sid < nextSock w then (Inr Unit, onerror msg w) else (Inr Unit, w))"
| "legacy_step ev (LWsClosed sid code reason) w =
     (if sid < nextSock w \<and> socks w sid \<noteq> CLOSED
      then (Inr Unit, legacy_onclose code reason (w\<lparr>socks := (socks w)(sid := CLOSED)\<rparr>))
      else (Inr Unit, w))"
| "legacy_step ev (LTimerFire i) w = (Inr Unit, timerFire ev i w)"

fun legacy_run :: "(env \<times> legacy_input) list \<Rightarrow> world \<Rightarrow> world" where
  "legacy_run [] w = w"
| "legacy_run (x # xs) w = legacy_run xs (snd (legacy_step (fst x) (snd x) w))"


section \<open>Views, invariants and sample inputs\<close>

text \<open>
  The definitions below are not code of the repository: they name what the statements
  talk about (the new part of the trace, the lifecycle fields, two invariants of the
  reachable worlds) and fix the concrete inputs at which the theorems are evaluated.
\<close>

fun isPersist :: "effect \<Rightarrow> bool" where
  "isPersist (Mkdir d) = True"
| "isPersist (WriteFile f b) = True"
| "isPersist e = False"

definition since :: "world \<Rightarrow> world \<Rightarrow> (effect \<times> ConnectionStats) list" where
  "since w w' = drop (length (trace w)) (trace w')"

definition timer_inv :: "world \<Rightarrow> bool" where
  "timer_inv w \<longleftrightarrow>
     (\<forall>i t. timers w i = Some t \<longrightarrow> i < nextTimer w) \<and>
     (\<forall>i d. timers w i = Some (Timeout d) \<longrightarrow> reconnectTimeout w = Some i) \<and>
     (\<forall>i d. timers w i = Some (Interval d) \<longrightarrow> pingTimeout w = Some i)"

definition heap_inv :: "world \<Rightarrow> bool" where
  "heap_inv w \<longleftrightarrow>
     statsRef w < nextObj w \<and> (\<forall>a \<in> set (handed w). a < nextObj w \<and> a \<noteq> statsRef w)"

definition lifecycle ::
  "world \<Rightarrow> nat option \<times> (nat \<Rightarrow> readyState) \<times> nat \<times> bool \<times> bool \<times> nat option \<times> nat option \<times>
     (nat \<Rightarrow> timer option) \<times> nat" where
  "lifecycle w =
     (socket w, socks w, nextSock w, shouldReconnect w, isConnected (stats w),
      reconnectTimeout w, pingTimeout w, timers w, nextTimer w)"

definition sampleFrame :: bytes where
  "sampleFrame = [0x28, 0xB5, 0x2F, 0xFD]"

definition sampleEnv :: "unpacked \<Rightarrow> env" where
  "sampleEnv u =
     \<lparr>now = 1700000000000, wsCtorThrows = None, wsSendThrows = None, mkdirThrows = None,
      writeFileThrows = None, zstdInitThrows = None,
      zstdDecompress = (\<lambda>b. if b = sampleFrame then Inr [0x81] else Inl (JsError ''zstd: bad frame'')),
      msgpackDecode = (\<lambda>b. if b = [0x81] then Inr u else Inl (JsError ''msgpack: bad input''))\<rparr>"

definition samplePayload :: NotificationFromPixelSocket where
  "samplePayload =
     \<lparr>jobId = ''abc'', blobData = Some [0x89, 0x50, 0x4E, 0x47], imageLength = MNumber 100,
      fileExtension = ''png'', mimeType = ''image/png'', objectUrl = None,
      secretToken = ''s'', timestamp = MNumber 1000, promptParams = None\<rparr>"

definition notification :: "NotificationFromPixelSocket \<Rightarrow> unpacked" where
  "notification p = Obj \<lparr>otype = Some notificationType, opayload = Some p\<rparr>"

definition openWorld :: "PixelSocketOptions \<Rightarrow> world" where
  "openWorld opts = run [(sampleEnv Falsy, Connect), (sampleEnv Falsy, WsOpen 0)] (PixelSocket opts)"

definition newEffects :: "world \<Rightarrow> world \<Rightarrow> effect list" where
  "newEffects w w' = map fst (since w w')"

definition externalPayload :: NotificationFromPixelSocket where
  "externalPayload =
     \<lparr>jobId = ''job-7'', blobData = None, imageLength = MNumber 45678,
      fileExtension = ''png'', mimeType = ''image/png'', objectUrl = Some ''s3://bucket/job-7.png'',
      secretToken = ''s'', timestamp = MBigInt 1768307710712, promptParams = None\<rparr>"

fun isCbImage :: "effect \<Rightarrow> bool" where
  "isCbImage (CbImage d m) = True"
| "isCbImage e = False"

fun isCbError :: "effect \<Rightarrow> bool" where
  "isCbError (CbError m) = True"
| "isCbError e = False"

definition samplePng :: bytes where
  "samplePng = [0x89, 0x50, 0x4E, 0x47]"

definition noSaveOptions :: PixelSocketOptions where
  "noSaveOptions = (defaultOptions ''ws://host/ws'')\<lparr>saveDirectory := None\<rparr>"

definition fixed :: "world \<Rightarrow> nat \<times> bool" where
  "fixed w = (statsRef w, shouldReconnect w)"

fun isFrameEffect :: "effect \<Rightarrow> bool" where
  "isFrameEffect (ConsoleLog (LogReceivedImage n l)) = True"
| "isFrameEffect (ConsoleLog (LogSavedImage f)) = True"
| "isFrameEffect (ConsoleError t) = True"
| "isFrameEffect (CbError t) = True"
| "isFrameEffect (Mkdir d) = True"
| "isFrameEffect (WriteFile f b) = True"
| "isFrameEffect e = False"

fun isSetTimeout :: "effect \<Rightarrow> bool" where
  "isSetTimeout (SetTimeout i d) = True"
| "isSetTimeout e = False"

definition noTimeout :: "world \<Rightarrow> bool" where
  "noTimeout w \<longleftrightarrow> (\<forall>i d. timers w i \<noteq> Some (Timeout d))"

definition stopped :: "world \<Rightarrow> bool" where
  "stopped w \<longleftrightarrow> \<not> shouldReconnect w \<and> noTimeout w"

definition halted :: "world \<Rightarrow> bool" where
  "halted w \<longleftrightarrow>
     \<not> shouldReconnect w \<and> socket w = None \<and> reconnectTimeout w = None \<and>
     pingTimeout w = None \<and> timers w = (\<lambda>_. None)"

fun isConnectCall :: "effect \<Rightarrow> bool" where
  "isConnectCall (ConsoleLog (LogConnecting u)) = True"
| "isConnectCall (WsNew i u) = True"
| "isConnectCall e = False"

fun isTimerArm :: "effect \<Rightarrow> bool" where
  "isTimerArm (SetTimeout i d) = True"
| "isTimerArm (SetInterval i d) = True"
| "isTimerArm e = False"

definition quiet :: env where
  "quiet = sampleEnv Falsy"

definition droppedWorld :: world where
  "droppedWorld =
     run [(quiet, Connect), (quiet, WsOpen 0), (quiet, WsClosed 0 1006 ''lost'')]
       (PixelSocket (defaultOptions ''ws://host/ws''))"

definition reconnectedWorld :: world where
  "reconnectedWorld =
     run [(quiet, Connect), (quiet, WsOpen 1), (quiet, WsClosed 1 1006 ''gone'')]
       (snd (step quiet Disconnect
          (run [(quiet, Connect), (quiet, WsOpen 0)] (PixelSocket (defaultOptions ''ws://host/ws'')))))"


text \<open>
  Frames for the cases below: a notification without a payload, a payload whose
  \<open>imageLength\<close> came as a 64-bit integer, and the JSON envelope
  \<open>{"image": ..., "metadata": {"timestamp": 1700000000000, "format": "png"}}\<close> of the
  legacy class, next to the same envelope without the timestamp.
\<close>

definition bareNotification :: unpacked where
  "bareNotification = Obj \<lparr>otype = Some notificationType, opayload = None\<rparr>"

definition bigintPayload :: NotificationFromPixelSocket where
  "bigintPayload = samplePayload\<lparr>imageLength := MBigInt 100\<rparr>"

definition stampedEnvelope :: legacy_frame where
  "stampedEnvelope = EnvelopeFrame samplePng
     \<lparr>jtimestamp = KeyValue, jformat = Some ''png'', jmimeType = None, jfilename = None\<rparr>"

definition plainEnvelope :: legacy_frame where
  "plainEnvelope = EnvelopeFrame samplePng
     \<lparr>jtimestamp = KeyAbsent, jformat = Some ''png'', jmimeType = None, jfilename = None\<rparr>"

text \<open>
  What no method but \<open>getStats\<close> touches: the address of \<open>this.stats\<close>, the addresses
  given out, and every object of the store but \<open>this.stats\<close> itself.
\<close>

definition held :: "world \<Rightarrow> nat \<times> nat \<times> nat list \<times> (nat \<Rightarrow> ConnectionStats)" where
  "held w = (statsRef w, nextObj w, handed w, (objs w)(statsRef w := initialStats))"

text \<open>
  An open connection after one call of \<open>getStats()\<close>, and values a caller may write into
  the object it got.
\<close>

definition snapshotWorld :: world where
  "snapshotWorld = snd (step quiet GetStats (openWorld (defaultOptions ''ws://host/ws'')))"

definition scribble :: ConnectionStats where
  "scribble = \<lparr>imagesReceived = 99, bytesReceived = Inexact, connectedAt = None, isConnected = False,
      reconnectAttempts = 7\<rparr>"

text \<open>Platforms on which \<open>send\<close>, \<open>mkdir\<close> or the WebSocket constructor throws.\<close>

definition sendFails :: env where
  "sendFails = quiet\<lparr>wsSendThrows := Some (JsError ''InvalidStateError'')\<rparr>"

definition mkdirFails :: env where
  "mkdirFails = (sampleEnv (notification samplePayload))\<lparr>mkdirThrows := Some (JsError ''EACCES'')\<rparr>"

definition ctorFails :: env where
  "ctorFails = quiet\<lparr>wsCtorThrows := Some (JsError ''Invalid URL'')\<rparr>"

text \<open>
  A legacy instance that allows one reconnect attempt, after its connection was lost
  and the timer of its first attempt has fired; a primary instance whose reconnect
  timer has fired; options that allow no attempt at the base delay.
\<close>

definition impatientOptions :: PixelSocketOptions where
  "impatientOptions = (legacy_defaultOptions ''ws://host/ws'')\<lparr>maxReconnectAttempts := 1\<rparr>"

definition refusedWorld :: world where
  "refusedWorld =
     legacy_run [(quiet, LConnect), (quiet, LWsOpen 0), (quiet, LWsClosed 0 1006 ''lost''),
                 (quiet, LTimerFire 1)]
       (PixelSocket impatientOptions)"

definition retryingWorld :: world where
  "retryingWorld = run [(quiet, TimerFire 1)] droppedWorld"

definition fallbackOptions :: PixelSocketOptions where
  "fallbackOptions = (defaultOptions ''ws://host/ws'')\<lparr>maxReconnectAttempts := 0\<rparr>"

section \<open>Basic facts\<close>

lemma stats_emit [simp]: "stats (emit e w) = stats w"
  by (simp add: emit_def stats_def)

lemma stats_upd_stats [simp]: "stats (upd_stats f w) = f (stats w)"
  by (simp add: upd_stats_def stats_def)

lemma trace_emit [simp]: "trace (emit e w) = trace w @ [(e, stats w)]"
  by (simp add: emit_def)

lemma trace_upd_stats [simp]: "trace (upd_stats f w) = trace w"
  by (simp add: upd_stats_def)

lemma options_emit [simp]: "options (emit e w) = options w"
  by (simp add: emit_def)

lemma options_upd_stats [simp]: "options (upd_stats f w) = options w"
  by (simp add: upd_stats_def)

lemma stats_saveFailed [simp]: "stats (saveFailed e w) = stats w"
  by (simp add: saveFailed_def Let_def)

lemma stats_saveBlock [simp]: "stats (saveBlock ev dir p blob w) = stats w"
  by (simp add: saveBlock_def Let_def split: option.splits)

lemma stats_ensureZstdInit: "ensureZstdInit ev w = (r, w1) \<Longrightarrow> stats w1 = stats w"
  by (auto simp: ensureZstdInit_def stats_def emit_def split: option.splits if_splits)

lemma stats_decompressAndUnpack: "decompressAndUnpack ev c w = (r, w1) \<Longrightarrow> stats w1 = stats w"
  by (auto simp: decompressAndUnpack_def dest: stats_ensureZstdInit
           split: prod.splits option.splits sum.splits)

lemma processImage_Some_stats:
  "plusField (bytesReceived (stats w)) (imageLength p) = Inr b \<Longrightarrow>
   stats (snd (processImage ev (Some p) w)) =
     (stats w)\<lparr>imagesReceived := imagesReceived (stats w) + 1, bytesReceived := b\<rparr>"
  by (simp add: processImage_def Let_def)

lemma processImage_Some_returns:
  "plusField (bytesReceived (stats w)) (imageLength p) = Inr b \<Longrightarrow>
   fst (processImage ev (Some p) w) = None"
  by (simp add: processImage_def Let_def)

lemma processImage_Some_throws:
  "plusField (bytesReceived (stats w)) (imageLength p) = Inl e \<Longrightarrow>
   processImage ev (Some p) w =
     (Some e, upd_stats (\<lambda>s. s\<lparr>imagesReceived := imagesReceived s + 1\<rparr>) w)"
  by (simp add: processImage_def Let_def)

lemma processImage_None:
  "processImage ev None w =
     (Some (JsError ''Cannot read properties of undefined (reading 'imageLength')''),
      upd_stats (\<lambda>s. s\<lparr>imagesReceived := imagesReceived s + 1\<rparr>) w)"
  by (simp add: processImage_def Let_def)

lemma handleMessage_failed:
  assumes "fst (decompressAndUnpack ev c w) = None \<or> fst (decompressAndUnpack ev c w) = Some Falsy"
  shows "stats (handleMessage ev (ArrayBuffer c) w) = stats w"
proof -
  obtain r w1 where d: "decompressAndUnpack ev c w = (r, w1)"
    by (cases "decompressAndUnpack ev c w") auto
  have "stats w1 = stats w" using d by (rule stats_decompressAndUnpack)
  then show ?thesis using assms d by (auto simp: handleMessage_def)
qed

lemma handleMessage_notification:
  assumes "fst (decompressAndUnpack ev c w) = Some (Obj object)"
    and "otype object = Some notificationType" and "opayload object = Some p"
    and "plusField (bytesReceived (stats w)) (imageLength p) = Inr b"
  shows "stats (handleMessage ev (ArrayBuffer c) w) =
     (stats w)\<lparr>imagesReceived := imagesReceived (stats w) + 1, bytesReceived := b\<rparr>"
proof -
  obtain w1 where d: "decompressAndUnpack ev c w = (Some (Obj object), w1)"
    using assms(1) by (cases "decompressAndUnpack ev c w") auto
  have s1: "stats w1 = stats w"
    using d by (rule stats_decompressAndUnpack)
  have pf: "plusField (bytesReceived (stats w1)) (imageLength p) = Inr b"
    using assms(4) s1 by simp
  obtain w2 where p: "processImage ev (Some p) w1 = (None, w2)"
    using processImage_Some_returns [OF pf, of ev] by (cases "processImage ev (Some p) w1") auto
  have "stats w2 = (stats w1)\<lparr>imagesReceived := imagesReceived (stats w1) + 1,
               bytesReceived := b\<rparr>"
    using processImage_Some_stats [OF pf, of ev] p by simp
  then show ?thesis
    using d p s1 assms(2,3) by (simp add: handleMessage_def)
qed

lemma handleMessage_throwing:
  assumes "fst (decompressAndUnpack ev c w) = Some (Obj object)"
    and "otype object = Some notificationType"
    and "opayload object = None \<or>
         (\<exists>p e. opayload object = Some p \<and>
            plusField (bytesReceived (stats w)) (imageLength p) = Inl e)"
  shows "stats (handleMessage ev (ArrayBuffer c) w) =
     (stats w)\<lparr>imagesReceived := imagesReceived (stats w) + 1\<rparr>"
proof -
  obtain w1 where d: "decompressAndUnpack ev c w = (Some (Obj object), w1)"
    using assms(1) by (cases "decompressAndUnpack ev c w") auto
  have s1: "stats w1 = stats w"
    using d by (rule stats_decompressAndUnpack)
  have "\<exists>e. processImage ev (opayload object) w1 =
          (Some e, upd_stats (\<lambda>s. s\<lparr>imagesReceived := imagesReceived s + 1\<rparr>) w1)"
    using assms(3) s1 by (auto simp: processImage_None processImage_Some_throws)
  then show ?thesis
    using d s1 assms(2) by (auto simp: handleMessage_def Let_def)
qed

lemma handleMessage_other:
  assumes "fst (decompressAndUnpack ev c w) = Some (Obj object)"
    and "otype object \<noteq> Some notificationType"
  shows "stats (handleMessage ev (ArrayBuffer c) w) = stats w"
proof -
  obtain w1 where d: "decompressAndUnpack ev c w = (Some (Obj object), w1)"
    using assms(1) by (cases "decompressAndUnpack ev c w") auto
  have "stats w1 = stats w" using d by (rule stats_decompressAndUnpack)
  then show ?thesis using assms(2) d by (simp add: handleMessage_def)
qed

lemma handleMessage_text: "handleMessage ev (TextFrame t) w = w"
  by (simp add: handleMessage_def)

lemma emit_fields [simp]:
  "socket (emit e w) = socket w"
  "options (emit e w) = options w"
  "statsRef (emit e w) = statsRef w"
  "reconnectTimeout (emit e w) = reconnectTimeout w"
  "pingTimeout (emit e w) = pingTimeout w"
  "shouldReconnect (emit e w) = shouldReconnect w"
  "zstdInitialized (emit e w) = zstdInitialized w"
  "objs (emit e w) = objs w"
  "nextObj (emit e w) = nextObj w"
  "handed (emit e w) = handed w"
  "dates (emit e w) = dates w"
  "nextDate (emit e w) = nextDate w"
  "socks (emit e w) = socks w"
  "nextSock (emit e w) = nextSock w"
  "timers (emit e w) = timers w"
  "nextTimer (emit e w) = nextTimer w"
  by (simp_all add: emit_def)

lemma upd_stats_fields [simp]:
  "socket (upd_stats f w) = socket w"
  "options (upd_stats f w) = options w"
  "statsRef (upd_stats f w) = statsRef w"
  "reconnectTimeout (upd_stats f w) = reconnectTimeout w"
  "pingTimeout (upd_stats f w) = pingTimeout w"
  "shouldReconnect (upd_stats f w) = shouldReconnect w"
  "zstdInitialized (upd_stats f w) = zstdInitialized w"
  "nextObj (upd_stats f w) = nextObj w"
  "handed (upd_stats f w) = handed w"
  "dates (upd_stats f w) = dates w"
  "nextDate (upd_stats f w) = nextDate w"
  "socks (upd_stats f w) = socks w"
  "nextSock (upd_stats f w) = nextSock w"
  "timers (upd_stats f w) = timers w"
  "nextTimer (upd_stats f w) = nextTimer w"
  by (simp_all add: upd_stats_def)

lemma timer_inv_lifecycle: "lifecycle w' = lifecycle w \<Longrightarrow> timer_inv w' = timer_inv w"
  by (simp add: timer_inv_def lifecycle_def)

lemma lifecycle_emit [simp]: "lifecycle (emit e w) = lifecycle w"
  by (simp add: lifecycle_def emit_def stats_def)

lemma lifecycle_upd_stats:
  "isConnected (f (stats w)) = isConnected (stats w) \<Longrightarrow> lifecycle (upd_stats f w) = lifecycle w"
  by (simp add: lifecycle_def upd_stats_def stats_def)

lemma lifecycle_zstd [simp]: "lifecycle (w\<lparr>zstdInitialized := b\<rparr>) = lifecycle w"
  by (simp add: lifecycle_def stats_def)

lemma lifecycle_ensureZstdInit [simp]: "lifecycle (snd (ensureZstdInit ev w)) = lifecycle w"
  by (simp add: ensureZstdInit_def split: option.splits)

lemma lifecycle_decompressAndUnpack [simp]:
  "lifecycle (snd (decompressAndUnpack ev c w)) = lifecycle w"
  by (simp add: decompressAndUnpack_def case_prod_beta split: option.splits sum.splits)

lemma lifecycle_saveBlock [simp]: "lifecycle (saveBlock ev dir p blob w) = lifecycle w"
  by (simp add: saveBlock_def saveFailed_def Let_def split: option.splits)

lemma lifecycle_processImage [simp]: "lifecycle (snd (processImage ev p w)) = lifecycle w"
  by (simp add: processImage_def Let_def lifecycle_upd_stats split: option.splits sum.splits)

lemma lifecycle_handleMessage [simp]: "lifecycle (handleMessage ev d w) = lifecycle w"
  by (simp add: handleMessage_def Let_def case_prod_beta
        split: msgdata.splits option.splits unpacked.splits)

lemma lifecycle_onerror [simp]: "lifecycle (onerror msg w) = lifecycle w"
  by (simp add: onerror_def Let_def)

lemma lifecycle_ws_send [simp]: "lifecycle (snd (ws_send ev sid d w)) = lifecycle w"
  by (simp add: ws_send_def split: option.splits)

lemma lifecycle_send [simp]: "lifecycle (snd (send ev d w)) = lifecycle w"
  by (simp add: send_def split: option.splits)

lemma lifecycle_pingTick [simp]: "lifecycle (pingTick ev w) = lifecycle w"
  by (simp add: pingTick_def case_prod_beta split: option.splits)

lemma lifecycle_getStats [simp]: "heap_inv w \<Longrightarrow> lifecycle (snd (getStats w)) = lifecycle w"
  by (simp add: getStats_def lifecycle_def stats_def heap_inv_def)

lemma timer_inv_emit [simp]: "timer_inv (emit e w) = timer_inv w"
  by (rule timer_inv_lifecycle) simp

lemma timer_inv_upd_stats [simp]: "timer_inv (upd_stats f w) = timer_inv w"
  by (simp add: timer_inv_def upd_stats_def)

lemma timer_inv_connect: "timer_inv w \<Longrightarrow> timer_inv (snd (connect ev w))"
  by (simp add: connect_def Let_def timer_inv_def split: option.splits)

lemma timer_inv_startPingInterval: "timer_inv w \<Longrightarrow> timer_inv (startPingInterval w)"
  by (auto simp: startPingInterval_def Let_def timer_inv_def setInterval_def
        clearInterval_def split: option.splits if_splits)

lemma timer_inv_scheduleReconnect: "timer_inv w \<Longrightarrow> timer_inv (scheduleReconnect w)"
  by (auto simp: scheduleReconnect_def Let_def timer_inv_def setTimeout_def
        clearTimeout_def split: option.splits if_splits)

lemma timer_inv_newDate [simp]: "timer_inv (snd (newDate ev w)) = timer_inv w"
  by (simp add: newDate_def timer_inv_def)

lemma timer_inv_onopen: "timer_inv w \<Longrightarrow> timer_inv (snd (onopen ev w))"
  by (simp add: onopen_def Let_def case_prod_beta timer_inv_startPingInterval
        timer_inv_lifecycle [OF lifecycle_ws_send] split: option.splits)

lemma timer_inv_onclose: "timer_inv w \<Longrightarrow> timer_inv (onclose code reason w)"
  by (simp add: onclose_def Let_def timer_inv_scheduleReconnect)

lemma timer_inv_socks [simp]: "timer_inv (w\<lparr>socks := x\<rparr>) = timer_inv w"
  by (simp add: timer_inv_def)

lemma timer_inv_reconnectTick: "timer_inv w \<Longrightarrow> timer_inv (reconnectTick ev w)"
  using timer_inv_connect [of w ev]
  by (simp add: reconnectTick_def case_prod_beta split: option.splits)

lemma timer_inv_remove: "timer_inv w \<Longrightarrow> timer_inv (w\<lparr>timers := (timers w)(i := None)\<rparr>)"
  by (auto simp: timer_inv_def)

lemma timer_inv_timerFire: "timer_inv w \<Longrightarrow> timer_inv (timerFire ev i w)"
  by (simp add: timerFire_def timer_inv_reconnectTick timer_inv_remove
        timer_inv_lifecycle [OF lifecycle_pingTick] split: option.splits timer.splits)

lemma timer_inv_disconnect: "timer_inv w \<Longrightarrow> timer_inv (disconnect w)"
  by (auto simp: disconnect_def Let_def timer_inv_def clearTimeout_def clearInterval_def
        ws_close_def split: option.splits)

lemma snd_outcome [simp]: "snd (outcome r) = snd r"
  by (simp add: outcome_def split: prod.splits option.splits)

lemma timer_inv_objs [simp]: "timer_inv (w\<lparr>objs := x\<rparr>) = timer_inv w"
  by (simp add: timer_inv_def)

lemma timer_inv_getStats [simp]: "timer_inv (snd (getStats w)) = timer_inv w"
  by (simp add: getStats_def timer_inv_def)

lemma timer_inv_step: "timer_inv w \<Longrightarrow> timer_inv (snd (step ev i w))"
  by (cases i)
     (simp_all add: timer_inv_connect timer_inv_disconnect timer_inv_onopen timer_inv_onclose
        timer_inv_timerFire case_prod_beta timer_inv_lifecycle [OF lifecycle_handleMessage]
        timer_inv_lifecycle [OF lifecycle_send] timer_inv_lifecycle [OF lifecycle_onerror])

lemma step_WsMessage_stats_cases:
  "stats (snd (step ev (WsMessage sid d) w)) = stats w \<or>
   (\<exists>c. d = ArrayBuffer c \<and> stats (snd (step ev (WsMessage sid d) w)) = stats (handleMessage ev (ArrayBuffer c) w))"
  by (cases d) (simp_all add: handleMessage_text)

lemma sample_decode_ok:
  "fst (decompressAndUnpack (sampleEnv u) sampleFrame (openWorld opts)) = Some u"
  by (simp add: decompressAndUnpack_def ensureZstdInit_def sampleEnv_def split: prod.splits)

lemma sample_decode_bad:
  "fst (decompressAndUnpack (sampleEnv u) [0, 1, 2] (openWorld opts)) = None"
  by (simp add: decompressAndUnpack_def ensureZstdInit_def sampleEnv_def sampleFrame_def split: prod.splits)

lemma stats_openWorld:
  "stats (openWorld opts) = \<lparr>imagesReceived = 0, bytesReceived = Exact 0, connectedAt = Some 0,
      isConnected = True, reconnectAttempts = 0\<rparr>"
  by (simp add: openWorld_def PixelSocket_def connect_def Let_def emit_def stats_def outcome_def
        onopen_def newDate_def upd_stats_def ws_send_def sampleEnv_def startPingInterval_def
        setInterval_def initialStats_def)

lemma decompressAndUnpack_Some:
  "decompressAndUnpack ev c w = (Some u, w1) \<Longrightarrow>
     trace w1 = trace w \<and> options w1 = options w \<and> stats w1 = stats w"
  by (auto simp: decompressAndUnpack_def ensureZstdInit_def stats_def
           split: prod.splits option.splits sum.splits if_splits)

lemma handleMessage_notification_eq:
  assumes "fst (decompressAndUnpack ev c w) = Some (Obj object)"
    and "otype object = Some notificationType" and "opayload object = Some p"
    and "plusField (bytesReceived (stats w)) (imageLength p) = Inr b"
  shows "\<exists>w1. handleMessage ev (ArrayBuffer c) w = snd (processImage ev (Some p) w1) \<and>
           trace w1 = trace w \<and> options w1 = options w \<and> stats w1 = stats w"
proof -
  obtain w1 where d: "decompressAndUnpack ev c w = (Some (Obj object), w1)"
    using assms(1) by (cases "decompressAndUnpack ev c w") auto
  have pf: "plusField (bytesReceived (stats w1)) (imageLength p) = Inr b"
    using assms(4) decompressAndUnpack_Some [OF d] by simp
  obtain w2 where p: "processImage ev (Some p) w1 = (None, w2)"
    using processImage_Some_returns [OF pf, of ev] by (cases "processImage ev (Some p) w1") auto
  have "handleMessage ev (ArrayBuffer c) w = snd (processImage ev (Some p) w1)"
    using d p assms(2,3) by (simp add: handleMessage_def)
  then show ?thesis using decompressAndUnpack_Some [OF d] by blast
qed

lemma since_same_trace: "trace w1 = trace w \<Longrightarrow> since w1 w' = since w w'"
  by (simp add: since_def)

lemma since_append [simp]: "trace w' = trace w @ xs \<Longrightarrow> since w w' = xs"
  by (simp add: since_def)

lemma trace_saveFailed:
  "trace (saveFailed e w) = trace w @
     [(ConsoleError ErrSaving, stats w),
      (CbError (errorMessage (toError ''Failed to save image'' e)), stats w)]"
  by (simp add: saveFailed_def Let_def)

lemma trace_saveBlock:
  "trace (saveBlock ev dir p blob w) = trace w @
     (Mkdir dir, stats w) #
     (case mkdirThrows ev of
        Some e \<Rightarrow>
          [(ConsoleError ErrSaving, stats w),
           (CbError (errorMessage (toError ''Failed to save image'' e)), stats w)]
      | None \<Rightarrow>
          (WriteFile (dir @ ''/'' @ fileName ev p) blob, stats w) #
          (case writeFileThrows ev of
             Some e \<Rightarrow>
               [(ConsoleError ErrSaving, stats w),
                (CbError (errorMessage (toError ''Failed to save image'' e)), stats w)]
           | None \<Rightarrow>
               [(ConsoleLog (LogSavedImage (dir @ ''/'' @ fileName ev p)),
                 stats w)]))"
  by (simp add: saveBlock_def Let_def trace_saveFailed split: option.splits)

lemma persist_saveBlock:
  "filter isPersist (map fst (since w (saveBlock ev dir p blob w))) =
     Mkdir dir # (if mkdirThrows ev = None then [WriteFile (dir @ ''/'' @ fileName ev p) blob] else [])"
  by (simp add: since_append [OF trace_saveBlock] split: option.splits)

lemma persist_processImage:
  "filter isPersist (map fst (since w (snd (processImage ev (Some p) w)))) =
     (if \<not> isl (plusField (bytesReceived (stats w)) (imageLength p)) \<and>
         truthy (saveDirectory (options w)) \<and> blobData p \<noteq> None
      then Mkdir (the (saveDirectory (options w))) #
           (if mkdirThrows ev = None
            then [WriteFile (the (saveDirectory (options w)) @ ''/'' @ fileName ev p)
                    (the (blobData p))]
            else [])
      else [])"
  by (cases "plusField (bytesReceived (stats w)) (imageLength p)")
     (simp_all add: processImage_def Let_def since_def trace_saveBlock split: option.splits)

lemma stamps_processImage:
  "plusField (bytesReceived (stats w)) (imageLength p) = Inr b \<Longrightarrow>
   (e, s) \<in> set (since w (snd (processImage ev (Some p) w))) \<Longrightarrow>
     s = (stats w)\<lparr>imagesReceived := imagesReceived (stats w) + 1, bytesReceived := b\<rparr>"
  by (auto simp: processImage_def Let_def since_def trace_saveBlock split: option.splits if_splits)

lemma no_callback_processImage:
  "filter isCbImage (map fst (since w (snd (processImage ev p w)))) = []"
proof (cases p)
  case None
  then show ?thesis by (simp add: processImage_def Let_def since_def)
next
  case (Some q)
  then show ?thesis
    by (cases "plusField (bytesReceived (stats w)) (imageLength q)")
       (simp_all add: processImage_def Let_def since_def trace_saveBlock split: option.splits)
qed

lemma trace_legacy_saveImage:
  "trace (legacy_saveImage ev d m w) = trace w @
     (Mkdir (case saveDirectory (options w) of Some x \<Rightarrow> x | None \<Rightarrow> []), stats w) #
     (case mkdirThrows ev of
        Some e \<Rightarrow>
          [(ConsoleError ErrSaving, stats w),
           (CbError (errorMessage (toError ''Failed to save image'' e)), stats w)]
      | None \<Rightarrow>
          (case mtimestamp m of
             TsValue \<Rightarrow>
               [(ConsoleError ErrSaving, stats w),
                (CbError ''metadata.timestamp.getTime is not a function'', stats w)]
           | TsNull \<Rightarrow>
               [(ConsoleError ErrSaving, stats w),
                (CbError ''Cannot read properties of null (reading 'getTime')'', stats w)]
           | TsDate t \<Rightarrow>
               (WriteFile ((case saveDirectory (options w) of Some x \<Rightarrow> x | None \<Rightarrow> []) @ ''/'' @
                           legacy_fileName d t m) d, stats w) #
               (case writeFileThrows ev of
                  Some e \<Rightarrow>
                    [(ConsoleError ErrSaving, stats w),
                     (CbError (errorMessage (toError ''Failed to save image'' e)), stats w)]
                | None \<Rightarrow>
                    [(ConsoleLog (LogSavedImage
                        ((case saveDirectory (options w) of Some x \<Rightarrow> x | None \<Rightarrow> []) @ ''/'' @
                         legacy_fileName d t m)), stats w)])))"
  by (simp add: legacy_saveImage_def Let_def trace_saveFailed split: option.splits tsfield.splits)

lemma persist_legacy_processImage:
  "filter isPersist (map fst (since w (legacy_processImage ev d m w))) =
     (if truthy (saveDirectory (options w))
      then Mkdir (the (saveDirectory (options w))) #
           (case mtimestamp (fullMetadata ev m) of
              TsValue \<Rightarrow> []
            | TsNull \<Rightarrow> []
            | TsDate t \<Rightarrow>
                if mkdirThrows ev = None
                then [WriteFile (the (saveDirectory (options w)) @ ''/'' @
                                 legacy_fileName d t (fullMetadata ev m)) d]
                else [])
      else [])"
  by (cases "saveDirectory (options w)")
     (simp_all add: legacy_processImage_def Let_def since_def trace_legacy_saveImage
        split: option.splits tsfield.splits)

lemma stamps_legacy_processImage:
  "(e, s) \<in> set (since w (legacy_processImage ev d m w)) \<Longrightarrow>
     s = (stats w)\<lparr>imagesReceived := imagesReceived (stats w) + 1,
                   bytesReceived := addNumber (bytesReceived (stats w)) (Exact (int (length d)))\<rparr>"
  by (auto simp: legacy_processImage_def Let_def since_def trace_legacy_saveImage
        split: option.splits if_splits tsfield.splits)

lemma callback_legacy_processImage:
  "filter isCbImage (map fst (since w (legacy_processImage ev d m w))) =
     [CbImage d (fullMetadata ev m)]"
  by (simp add: legacy_processImage_def Let_def since_def trace_legacy_saveImage
        split: option.splits tsfield.splits)

lemma cberror_processImage_noop:
  "\<not> (truthy (saveDirectory (options w)) \<and> blobData p \<noteq> None) \<Longrightarrow>
     filter isCbError (map fst (since w (snd (processImage ev (Some p) w)))) = []"
  by (cases "plusField (bytesReceived (stats w)) (imageLength p)")
     (auto simp: processImage_def Let_def since_def)

lemma cberror_legacy_processImage_noop:
  "\<not> truthy (saveDirectory (options w)) \<Longrightarrow>
     filter isCbError (map fst (since w (legacy_processImage ev d m w))) = []"
  by (simp add: legacy_processImage_def Let_def since_def)

lemma options_primitives [simp]:
  "options (clearTimeout i w) = options w"
  "options (clearInterval i w) = options w"
  "options (snd (setTimeout d w)) = options w"
  "options (snd (setInterval d w)) = options w"
  "options (snd (ws_send ev sid m w)) = options w"
  "options (ws_close sid w) = options w"
  "options (snd (newDate ev w)) = options w"
  by (simp_all add: clearTimeout_def clearInterval_def setTimeout_def setInterval_def
        ws_send_def ws_close_def newDate_def split: option.splits)

lemma options_connect [simp]: "options (snd (connect ev w)) = options w"
  by (simp add: connect_def Let_def split: option.splits)

lemma options_startPingInterval [simp]: "options (startPingInterval w) = options w"
  by (simp add: startPingInterval_def Let_def case_prod_beta split: option.splits)

lemma options_onopen [simp]: "options (snd (onopen ev w)) = options w"
  by (simp add: onopen_def Let_def case_prod_beta split: option.splits)

lemma options_onerror [simp]: "options (onerror msg w) = options w"
  by (simp add: onerror_def Let_def)

lemma options_scheduleReconnect [simp]: "options (scheduleReconnect w) = options w"
  by (simp add: scheduleReconnect_def Let_def case_prod_beta split: option.splits)

lemma options_onclose [simp]: "options (onclose code reason w) = options w"
  by (simp add: onclose_def Let_def)

lemma options_pingTick [simp]: "options (pingTick ev w) = options w"
  by (simp add: pingTick_def case_prod_beta split: option.splits)

lemma options_reconnectTick [simp]: "options (reconnectTick ev w) = options w"
  using options_connect [of ev w]
  by (simp add: reconnectTick_def case_prod_beta split: option.splits)

lemma options_timerFire [simp]: "options (timerFire ev i w) = options w"
  using options_reconnectTick [of ev "w\<lparr>timers := (timers w)(i := None)\<rparr>"]
  by (simp add: timerFire_def split: option.splits timer.splits)

lemma options_send [simp]: "options (snd (send ev d w)) = options w"
  by (simp add: send_def split: option.splits)

lemma options_disconnect [simp]: "options (disconnect w) = options w"
  by (simp add: disconnect_def Let_def split: option.splits)

lemma options_getStats [simp]: "options (snd (getStats w)) = options w"
  by (simp add: getStats_def)

lemma options_handleMessage [simp]: "options (handleMessage ev d w) = options w"
proof -
  have a: "options (snd (ensureZstdInit ev w)) = options w" for w
    by (simp add: ensureZstdInit_def split: option.splits)
  have b: "options (snd (decompressAndUnpack ev c w)) = options w" for c w
    by (simp add: decompressAndUnpack_def case_prod_beta a split: option.splits sum.splits)
  have c: "options (saveBlock ev dir p blob w) = options w" for dir p blob w
    by (simp add: saveBlock_def saveFailed_def Let_def split: option.splits)
  have d: "options (snd (processImage ev p w)) = options w" for p w
    by (simp add: processImage_def Let_def c split: option.splits sum.splits)
  show ?thesis
    by (simp add: handleMessage_def case_prod_beta Let_def b d
          split: msgdata.splits option.splits unpacked.splits)
qed

lemma options_step [simp]: "options (snd (step ev i w)) = options w"
  by (cases i) (simp_all add: case_prod_beta)

lemma options_run [simp]: "options (run ins w) = options w"
  by (induction ins arbitrary: w) simp_all

lemma options_openWorld [simp]: "options (openWorld opts) = opts"
  by (simp add: openWorld_def PixelSocket_def)

lemma numberToString_samples:
  "numberToString 1000 = ''1000''"
  "numberToString 1700000000000 = ''1700000000000''"
  by (simp_all add: numberToString_def decimal.simps digit_def)

lemma openWorld_fields:
  "socket (openWorld opts) = Some 0"
  "nextSock (openWorld opts) = 1"
  "socks (openWorld opts) 0 = OPEN"
  "zstdInitialized (openWorld opts) = False"
  "shouldReconnect (openWorld opts) = True"
  "reconnectTimeout (openWorld opts) = None"
  "pingTimeout (openWorld opts) = Some 0"
  "timers (openWorld opts) = (\<lambda>_. None)(0 \<mapsto> Interval 20000)"
  "nextTimer (openWorld opts) = 1"
  by (simp_all add: openWorld_def PixelSocket_def connect_def Let_def emit_def outcome_def
        onopen_def newDate_def upd_stats_def ws_send_def sampleEnv_def startPingInterval_def
        setInterval_def)

lemma newEffects_processImage:
  "plusField (bytesReceived (stats w)) (imageLength p) = Inr b \<Longrightarrow>
   newEffects w (snd (processImage ev (Some p) w)) =
     ConsoleLog (LogReceivedImage (imagesReceived (stats w) + 1) (imageLength p)) #
     (if truthy (saveDirectory (options w)) \<and> blobData p \<noteq> None
      then Mkdir (the (saveDirectory (options w))) #
           (case mkdirThrows ev of
              Some e \<Rightarrow>
                [ConsoleError ErrSaving,
                 CbError (errorMessage (toError ''Failed to save image'' e))]
            | None \<Rightarrow>
                WriteFile (the (saveDirectory (options w)) @ ''/'' @ fileName ev p)
                  (the (blobData p)) #
                (case writeFileThrows ev of
                   Some e \<Rightarrow>
                     [ConsoleError ErrSaving,
                      CbError (errorMessage (toError ''Failed to save image'' e))]
                 | None \<Rightarrow>
                     [ConsoleLog (LogSavedImage
                        (the (saveDirectory (options w)) @ ''/'' @ fileName ev p))]))
      else [])"
  by (simp add: newEffects_def processImage_def Let_def since_def trace_saveBlock
        split: option.splits)

lemma newEffects_handleMessage_notification:
  assumes "fst (decompressAndUnpack ev c w) = Some (Obj object)"
    and "otype object = Some notificationType" and "opayload object = Some p"
    and "plusField (bytesReceived (stats w)) (imageLength p) = Inr b"
  shows "newEffects w (handleMessage ev (ArrayBuffer c) w) =
           newEffects w (snd (processImage ev (Some p) w))"
proof -
  obtain w1 where w1: "handleMessage ev (ArrayBuffer c) w = snd (processImage ev (Some p) w1)"
    "trace w1 = trace w" "options w1 = options w" "stats w1 = stats w"
    using handleMessage_notification_eq [OF assms] by blast
  have pf: "plusField (bytesReceived (stats w1)) (imageLength p) = Inr b"
    using assms(4) w1(4) by simp
  have 1: "newEffects w (handleMessage ev (ArrayBuffer c) w) =
          newEffects w1 (snd (processImage ev (Some p) w1))"
    unfolding newEffects_def w1(1) by (simp only: since_same_trace [OF w1(2)])
  have 2: "newEffects w1 (snd (processImage ev (Some p) w1)) =
          newEffects w (snd (processImage ev (Some p) w))"
    unfolding newEffects_processImage [OF pf] newEffects_processImage [OF assms(4)] w1(3) w1(4)
    by (rule refl)
  show ?thesis using 1 2 by (rule trans)
qed

lemma effects_emit [simp]: "effects (emit e w) = effects w @ [e]"
  by (simp add: effects_def)

lemma effects_upd_stats [simp]: "effects (upd_stats f w) = effects w"
  by (simp add: effects_def)

lemma effects_primitives [simp]:
  "effects (clearTimeout i w) = effects w @ [ClearTimeout i]"
  "effects (clearInterval i w) = effects w @ [ClearInterval i]"
  "effects (snd (setTimeout d w)) = effects w @ [SetTimeout (nextTimer w) d]"
  "effects (snd (setInterval d w)) = effects w @ [SetInterval (nextTimer w) d]"
  "effects (ws_close sid w) = effects w @ [WsClose sid]"
  "effects (snd (newDate ev w)) = effects w"
  by (simp_all add: clearTimeout_def clearInterval_def setTimeout_def setInterval_def
        ws_close_def newDate_def effects_def emit_def)

lemma effects_ws_send:
  "effects (snd (ws_send ev sid m w)) =
     effects w @ (case wsSendThrows ev of Some e \<Rightarrow> [] | None \<Rightarrow> [WsSend sid m])"
  by (simp add: ws_send_def split: option.splits)

lemma fst_ws_send [simp]: "fst (ws_send ev sid m w) = wsSendThrows ev"
  by (simp add: ws_send_def split: option.splits)

lemma effects_connect:
  "effects (snd (connect ev w)) =
     effects w @ ConsoleLog (LogConnecting (url (options w))) #
       (case wsCtorThrows ev of
          Some e \<Rightarrow> [CbError (errorMessage (toError ''Failed to connect'' e))]
        | None \<Rightarrow> [WsNew (nextSock w) (url (options w))])"
  by (simp add: connect_def Let_def effects_def emit_def split: option.splits)

lemma fst_connect:
  "fst (connect ev w) = map_option (toError ''Failed to connect'') (wsCtorThrows ev)"
  by (simp add: connect_def Let_def split: option.splits)

lemma effects_startPingInterval:
  "effects (startPingInterval w) =
     effects w @ (case pingTimeout w of Some i \<Rightarrow> [ClearInterval i] | None \<Rightarrow> []) @
       [SetInterval (nextTimer w) 20000]"
  by (simp add: startPingInterval_def Let_def case_prod_beta setInterval_def clearInterval_def
        effects_def emit_def split: option.splits)

lemma effects_onopen:
  "effects (snd (onopen ev w)) =
     effects w @ ConsoleLog (LogConnected (url (options w))) #
       (case socket w of
          None \<Rightarrow> []
        | Some sid \<Rightarrow>
            (case wsSendThrows ev of
               Some e \<Rightarrow> []
             | None \<Rightarrow>
                 WsSend sid (TextFrame subscribeMessage) #
                 (case pingTimeout w of Some i \<Rightarrow> [ClearInterval i] | None \<Rightarrow> []) @
                 [SetInterval (nextTimer w) 20000, CbConnect]))"
  by (simp add: onopen_def Let_def case_prod_beta newDate_def ws_send_def
        startPingInterval_def setInterval_def clearInterval_def effects_def
        split: option.splits)

lemma effects_onerror:
  "effects (onerror msg w) =
     effects w @
       [ConsoleError ErrSocket,
        CbError (''WebSocket error: '' @
                 (case msg of None \<Rightarrow> ''Unknown error''
                  | Some t \<Rightarrow> if t = [] then ''Unknown error'' else t))]"
  by (simp add: onerror_def Let_def)

lemma effects_scheduleReconnect:
  "effects (scheduleReconnect w) =
     effects w @ (case reconnectTimeout w of Some i \<Rightarrow> [ClearTimeout i] | None \<Rightarrow> []) @
       [ConsoleLog (LogReconnecting (if reconnectAttempts (stats w) + 1 \<le> maxReconnectAttempts (options w)
                          then reconnectDelay (options w) else 60000)
          (if reconnectAttempts (stats w) + 1 \<le> maxReconnectAttempts (options w)
           then ''attempt '' @ numberToString (reconnectAttempts (stats w) + 1) @ ''/'' @
                numberToString (maxReconnectAttempts (options w))
           else ''attempt '' @ numberToString (reconnectAttempts (stats w) + 1) @ '' (ongoing)'')),
        SetTimeout (nextTimer w)
          (if reconnectAttempts (stats w) + 1 \<le> maxReconnectAttempts (options w)
           then reconnectDelay (options w) else 60000)]"
  by (simp add: scheduleReconnect_def Let_def case_prod_beta setTimeout_def clearTimeout_def
        effects_def emit_def stats_def upd_stats_def split: option.splits)

lemma effects_onclose:
  "effects (onclose code reason w) =
     effects w @
       [ConsoleLog (LogDisconnected code reason),
        CbDisconnect code reason] @
       (if shouldReconnect w \<and> autoReconnect (options w)
        then (case reconnectTimeout w of Some i \<Rightarrow> [ClearTimeout i] | None \<Rightarrow> []) @
          [ConsoleLog (LogReconnecting (if reconnectAttempts (stats w) + 1 \<le> maxReconnectAttempts (options w)
                             then reconnectDelay (options w) else 60000)
          (if reconnectAttempts (stats w) + 1 \<le> maxReconnectAttempts (options w)
              then ''attempt '' @ numberToString (reconnectAttempts (stats w) + 1) @ ''/'' @
                   numberToString (maxReconnectAttempts (options w))
              else ''attempt '' @ numberToString (reconnectAttempts (stats w) + 1) @ '' (ongoing)'')),
           SetTimeout (nextTimer w)
             (if reconnectAttempts (stats w) + 1 \<le> maxReconnectAttempts (options w)
              then reconnectDelay (options w) else 60000)]
        else [])"
  by (simp add: onclose_def Let_def effects_scheduleReconnect)

lemma effects_pingTick:
  "effects (pingTick ev w) =
     effects w @
       (case socket w of
          None \<Rightarrow> []
        | Some sid \<Rightarrow>
            if socks w sid = OPEN then
              (case wsSendThrows ev of
                 None \<Rightarrow> [WsSend sid (TextFrame pingMessage), ConsoleLog LogSentPing]
               | Some e \<Rightarrow> [ConsoleError ErrSendingPing])
            else [])"
  by (simp add: pingTick_def ws_send_def split: option.splits)

lemma effects_reconnectTick:
  "effects (reconnectTick ev w) =
     effects w @ ConsoleLog (LogConnecting (url (options w))) #
       (case wsCtorThrows ev of
          Some e \<Rightarrow> [CbError (errorMessage (toError ''Failed to connect'' e)),
                     ConsoleError ErrReconnectFailed]
        | None \<Rightarrow> [WsNew (nextSock w) (url (options w))])"
  by (simp add: reconnectTick_def connect_def Let_def effects_def split: option.splits)

lemma effects_send:
  "effects (snd (send ev d w)) =
     effects w @
       (case socket w of
          None \<Rightarrow> []
        | Some sid \<Rightarrow>
            if socks w sid = OPEN
            then (case wsSendThrows ev of Some e \<Rightarrow> [] | None \<Rightarrow> [WsSend sid d])
            else [])"
  by (simp add: send_def ws_send_def split: option.splits)

lemma effects_disconnect:
  "effects (disconnect w) =
     effects w @
       (case reconnectTimeout w of Some i \<Rightarrow> [ClearTimeout i] | None \<Rightarrow> []) @
       (case pingTimeout w of Some i \<Rightarrow> [ClearInterval i] | None \<Rightarrow> []) @
       (case socket w of Some sid \<Rightarrow> [WsClose sid] | None \<Rightarrow> [])"
  by (simp add: disconnect_def Let_def clearTimeout_def clearInterval_def ws_close_def
        effects_def emit_def split: option.splits)

lemma effects_getStats [simp]: "effects (snd (getStats w)) = effects w"
  by (simp add: getStats_def effects_def)

lemma fixed_basic [simp]:
  "fixed (emit e w) = fixed w"
  "fixed (upd_stats f w) = fixed w"
  "fixed (clearTimeout i w) = fixed w"
  "fixed (clearInterval i w) = fixed w"
  "fixed (snd (setTimeout d w)) = fixed w"
  "fixed (snd (setInterval d w)) = fixed w"
  "fixed (snd (ws_send ev sid m w)) = fixed w"
  "fixed (ws_close sid w) = fixed w"
  "fixed (snd (newDate ev w)) = fixed w"
  by (simp_all add: fixed_def clearTimeout_def clearInterval_def setTimeout_def setInterval_def
        ws_send_def ws_close_def newDate_def split: option.splits)

lemma fixed_updates [simp]:
  "fixed (w\<lparr>socks := a\<rparr>) = fixed w"
  "fixed (w\<lparr>timers := b\<rparr>) = fixed w"
  "fixed (w\<lparr>objs := c\<rparr>) = fixed w"
  "fixed (w\<lparr>zstdInitialized := d\<rparr>) = fixed w"
  "fixed (w\<lparr>pingTimeout := e\<rparr>) = fixed w"
  "fixed (w\<lparr>reconnectTimeout := f\<rparr>) = fixed w"
  "fixed (w\<lparr>socket := g\<rparr>) = fixed w"
  by (simp_all add: fixed_def)

lemma fixed_connect [simp]: "fixed (snd (connect ev w)) = fixed w"
  by (simp add: connect_def Let_def fixed_def split: option.splits)

lemma fixed_startPingInterval [simp]: "fixed (startPingInterval w) = fixed w"
  by (simp add: startPingInterval_def Let_def case_prod_beta split: option.splits)

lemma fixed_onopen [simp]: "fixed (snd (onopen ev w)) = fixed w"
  by (simp add: onopen_def Let_def case_prod_beta split: option.splits)

lemma fixed_onerror [simp]: "fixed (onerror msg w) = fixed w"
  by (simp add: onerror_def Let_def)

lemma fixed_scheduleReconnect [simp]: "fixed (scheduleReconnect w) = fixed w"
  by (simp add: scheduleReconnect_def Let_def case_prod_beta split: option.splits)

lemma fixed_onclose [simp]: "fixed (onclose code reason w) = fixed w"
  by (simp add: onclose_def Let_def)

lemma fixed_pingTick [simp]: "fixed (pingTick ev w) = fixed w"
  by (simp add: pingTick_def case_prod_beta split: option.splits)

lemma fixed_reconnectTick [simp]: "fixed (reconnectTick ev w) = fixed w"
  using fixed_connect [of ev w]
  by (simp add: reconnectTick_def case_prod_beta split: option.splits)

lemma fixed_timerFire [simp]: "fixed (timerFire ev i w) = fixed w"
  by (simp add: timerFire_def split: option.splits timer.splits)

lemma fixed_send [simp]: "fixed (snd (send ev d w)) = fixed w"
  by (simp add: send_def split: option.splits)

lemma fixed_getStats [simp]: "fixed (snd (getStats w)) = fixed w"
  by (simp add: getStats_def fixed_def)

lemma fixed_handleMessage [simp]: "fixed (handleMessage ev d w) = fixed w"
proof -
  have a: "fixed (snd (ensureZstdInit ev w)) = fixed w" for w
    by (simp add: ensureZstdInit_def split: option.splits)
  have b: "fixed (snd (decompressAndUnpack ev c w)) = fixed w" for c w
    by (simp add: decompressAndUnpack_def case_prod_beta a split: option.splits sum.splits)
  have c: "fixed (saveBlock ev dir p blob w) = fixed w" for dir p blob w
    by (simp add: saveBlock_def saveFailed_def Let_def split: option.splits)
  have d: "fixed (snd (processImage ev p w)) = fixed w" for p w
    by (simp add: processImage_def Let_def c split: option.splits sum.splits)
  show ?thesis
    by (simp add: handleMessage_def case_prod_beta Let_def b d
          split: msgdata.splits option.splits unpacked.splits)
qed

lemma fixed_disconnect: "fixed (disconnect w) = (statsRef w, False)"
  by (simp add: disconnect_def Let_def fixed_def clearTimeout_def clearInterval_def ws_close_def
        split: option.splits)

lemma fixed_step:
  "fixed (snd (step ev i w)) = (statsRef w, shouldReconnect w \<and> i \<noteq> Disconnect)"
  by (cases i) (simp_all add: case_prod_beta fixed_disconnect, simp_all add: fixed_def)

lemma shouldReconnect_step:
  "shouldReconnect (snd (step ev i w)) = (shouldReconnect w \<and> i \<noteq> Disconnect)"
  using fixed_step [of ev i w] by (simp add: fixed_def)

lemma statsRef_step [simp]: "statsRef (snd (step ev i w)) = statsRef w"
  using fixed_step [of ev i w] by (simp add: fixed_def)

lemma shouldReconnect_run:
  "shouldReconnect (run ins w) = (shouldReconnect w \<and> Disconnect \<notin> snd ` set ins)"
  by (induction ins arbitrary: w) (auto simp: shouldReconnect_step)

lemma effects_handleMessage:
  "\<exists>xs. effects (handleMessage ev d w) = effects w @ xs \<and> (\<forall>e \<in> set xs. isFrameEffect e)"
proof (cases d)
  case (TextFrame t)
  then show ?thesis by (simp add: handleMessage_def)
next
  case (ArrayBuffer c)
  have a: "\<exists>xs. effects (snd (ensureZstdInit ev w)) = effects w @ xs \<and> (\<forall>e \<in> set xs. isFrameEffect e)"
    by (simp add: ensureZstdInit_def effects_def split: option.splits)
  then obtain xs where xs: "effects (snd (ensureZstdInit ev w)) = effects w @ xs"
    "\<forall>e \<in> set xs. isFrameEffect e" by blast
  have b: "\<exists>ys. effects (snd (decompressAndUnpack ev c w)) = effects w @ ys \<and>
             (\<forall>e \<in> set ys. isFrameEffect e)"
    using xs by (auto simp: decompressAndUnpack_def case_prod_beta split: option.splits sum.splits)
  then obtain ys where ys: "effects (snd (decompressAndUnpack ev c w)) = effects w @ ys"
    "\<forall>e \<in> set ys. isFrameEffect e" by blast
  have sb: "\<exists>zs. effects (saveBlock ev dir p blob v) = effects v @ zs \<and>
             (\<forall>e \<in> set zs. isFrameEffect e)" for dir p blob v
    by (simp add: saveBlock_def saveFailed_def Let_def split: option.splits)
  have pi: "\<exists>zs. effects (snd (processImage ev p v)) = effects v @ zs \<and>
             (\<forall>e \<in> set zs. isFrameEffect e)" for p v
  proof (cases p)
    case None
    then show ?thesis by (simp add: processImage_def Let_def)
  next
    case (Some q)
    show ?thesis
    proof (cases "plusField (bytesReceived (stats (upd_stats (\<lambda>s. s\<lparr>imagesReceived := imagesReceived s + 1\<rparr>) v)))
                    (imageLength q)")
      case (Inl e)
      then show ?thesis using Some by (simp add: processImage_def Let_def)
    next
      case (Inr b)
      obtain zs where "effects (saveBlock ev (the (saveDirectory (options v))) q (the (blobData q))
          (emit (ConsoleLog (LogReceivedImage (imagesReceived (stats v) + 1) (imageLength q)))
            (upd_stats (\<lambda>s. s\<lparr>bytesReceived := b\<rparr>)
               (upd_stats (\<lambda>s. s\<lparr>imagesReceived := imagesReceived s + 1\<rparr>) v)))) =
         effects (emit (ConsoleLog (LogReceivedImage (imagesReceived (stats v) + 1) (imageLength q)))
            (upd_stats (\<lambda>s. s\<lparr>bytesReceived := b\<rparr>)
               (upd_stats (\<lambda>s. s\<lparr>imagesReceived := imagesReceived s + 1\<rparr>) v))) @ zs"
        "\<forall>e \<in> set zs. isFrameEffect e"
        using sb by blast
      then show ?thesis using Some Inr by (simp add: processImage_def Let_def)
    qed
  qed
  show ?thesis
  proof (cases "fst (decompressAndUnpack ev c w)")
    case None
    then show ?thesis using ArrayBuffer ys
      by (simp add: handleMessage_def case_prod_beta)
  next
    case (Some u)
    show ?thesis
    proof (cases u)
      case Falsy
      then show ?thesis using ArrayBuffer ys Some
        by (simp add: handleMessage_def case_prod_beta)
    next
      case (Obj object)
      obtain zs where zs: "effects (snd (processImage ev (opayload object) (snd (decompressAndUnpack ev c w)))) =
          effects (snd (decompressAndUnpack ev c w)) @ zs" "\<forall>e \<in> set zs. isFrameEffect e"
        using pi by blast
      show ?thesis using ArrayBuffer ys Some Obj zs
        by (auto simp: handleMessage_def case_prod_beta Let_def split: option.splits)
    qed
  qed
qed

lemma noTimeout_lifecycle: "lifecycle w' = lifecycle w \<Longrightarrow> noTimeout w' = noTimeout w"
  by (simp add: noTimeout_def lifecycle_def)

lemma lifecycle_getStats' [simp]: "lifecycle (snd (getStats w)) = lifecycle w"
  by (simp add: getStats_def lifecycle_def stats_def)

lemma newEffects_alt: "newEffects w w' = drop (length (effects w)) (effects w')"
  by (simp add: newEffects_def since_def effects_def drop_map)

lemma newEffects_append: "effects w' = effects w @ xs \<Longrightarrow> newEffects w w' = xs"
  by (simp add: newEffects_alt)

lemma timers_connect [simp]: "timers (snd (connect ev w)) = timers w"
  by (simp add: connect_def Let_def split: option.splits)

lemma noTimeout_connect [simp]: "noTimeout (snd (connect ev w)) = noTimeout w"
  by (simp add: noTimeout_def)

lemma noTimeout_startPingInterval: "noTimeout w \<Longrightarrow> noTimeout (startPingInterval w)"
  by (auto simp: noTimeout_def startPingInterval_def Let_def setInterval_def clearInterval_def
        split: option.splits)

lemma noTimeout_onopen: "noTimeout w \<Longrightarrow> noTimeout (snd (onopen ev w))"
proof -
  assume a: "noTimeout w"
  have b: "noTimeout (upd_stats f v) = noTimeout v" for f v
    by (simp add: noTimeout_def)
  have c: "noTimeout (emit e v) = noTimeout v" for e v
    by (simp add: noTimeout_def)
  have d: "noTimeout (snd (newDate ev v)) = noTimeout v" for v
    by (simp add: noTimeout_def newDate_def)
  have e: "noTimeout (snd (ws_send ev sid m v)) = noTimeout v" for sid m v
    by (simp add: noTimeout_def ws_send_def split: option.splits)
  show ?thesis using a
    by (simp add: onopen_def Let_def case_prod_beta b c d e noTimeout_startPingInterval
          split: option.splits)
qed

lemma noTimeout_disconnect: "noTimeout w \<Longrightarrow> noTimeout (disconnect w)"
  by (auto simp: noTimeout_def disconnect_def Let_def clearTimeout_def clearInterval_def
        ws_close_def split: option.splits)

lemma onclose_stopped:
  "\<not> shouldReconnect w \<Longrightarrow>
     onclose code reason w =
       emit (CbDisconnect code reason)
         (emit (ConsoleLog (LogDisconnected code reason))
            (upd_stats (\<lambda>s. s\<lparr>isConnected := False\<rparr>) w))"
  by (simp add: onclose_def Let_def)

lemma noTimeout_basic [simp]:
  "noTimeout (emit e w) = noTimeout w"
  "noTimeout (upd_stats f w) = noTimeout w"
  "noTimeout (w\<lparr>socks := a\<rparr>) = noTimeout w"
  "noTimeout (w\<lparr>objs := b\<rparr>) = noTimeout w"
  by (simp_all add: noTimeout_def)

lemma effects_updates [simp]:
  "effects (w\<lparr>socks := a\<rparr>) = effects w"
  "effects (w\<lparr>timers := b\<rparr>) = effects w"
  "effects (w\<lparr>objs := c\<rparr>) = effects w"
  by (simp_all add: effects_def)

lemma timerFire_noTimeout: "noTimeout w \<Longrightarrow> timerFire ev i w = (case timers w i of None \<Rightarrow> w | Some t \<Rightarrow> pingTick ev w)"
  by (auto simp: noTimeout_def timerFire_def split: option.splits timer.splits)

lemma stopped_step:
  assumes "stopped w"
  shows "stopped (snd (step ev i w))"
    and "\<exists>xs. effects (snd (step ev i w)) = effects w @ xs \<and> filter isSetTimeout xs = []"
proof -
  have sr: "\<not> shouldReconnect w" and nt: "noTimeout w"
    using assms by (simp_all add: stopped_def)
  have "\<not> shouldReconnect (snd (step ev i w))"
    using sr by (simp add: shouldReconnect_step)
  moreover have "noTimeout (snd (step ev i w))"
  proof (cases i)
    case (WsMessage sid d)
    then show ?thesis using nt by (simp add: noTimeout_lifecycle [OF lifecycle_handleMessage])
  next
    case (TimerFire t)
    then show ?thesis using nt
      by (simp add: timerFire_noTimeout noTimeout_lifecycle [OF lifecycle_pingTick]
            split: option.splits)
  qed (use nt sr in \<open>simp_all add: noTimeout_onopen noTimeout_disconnect onclose_stopped
         noTimeout_lifecycle [OF lifecycle_send] noTimeout_lifecycle [OF lifecycle_onerror]
         noTimeout_lifecycle [OF lifecycle_getStats'] case_prod_beta\<close>)
  ultimately show "stopped (snd (step ev i w))" by (simp add: stopped_def)
  show "\<exists>xs. effects (snd (step ev i w)) = effects w @ xs \<and> filter isSetTimeout xs = []"
  proof (cases i)
    case (WsMessage sid d)
    obtain xs where "effects (handleMessage ev d w) = effects w @ xs" "\<forall>e \<in> set xs. isFrameEffect e"
      using effects_handleMessage by blast
    moreover have "isFrameEffect e \<Longrightarrow> \<not> isSetTimeout e" for e by (cases e) simp_all
    ultimately have "effects (handleMessage ev d w) = effects w @ xs \<and> filter isSetTimeout xs = []"
      by (auto simp: filter_empty_conv)
    then show ?thesis using WsMessage by auto
  next
    case (TimerFire t)
    then show ?thesis using nt
      by (simp add: timerFire_noTimeout effects_pingTick split: option.splits)
  next
    case (MutateSnapshot a v)
    then show ?thesis by simp
  next
    case (WsOpen sid)
    then show ?thesis by (simp add: effects_onopen split: option.splits)
  next
    case (WsClosed sid code reason)
    then show ?thesis using sr by (simp add: effects_onclose)
  next
    case (WsError sid m)
    then show ?thesis by (simp add: effects_onerror)
  qed (simp_all add: effects_connect effects_disconnect effects_send case_prod_beta
         split: option.splits)
qed

lemma stopped_run:
  "stopped w \<Longrightarrow>
     stopped (run ins w) \<and>
     (\<exists>xs. effects (run ins w) = effects w @ xs \<and> filter isSetTimeout xs = [])"
proof (induction ins arbitrary: w)
  case Nil
  then show ?case by simp
next
  case (Cons x ins)
  have s1: "stopped (snd (step (fst x) (snd x) w))"
    using Cons.prems by (rule stopped_step(1))
  obtain xs where xs: "effects (snd (step (fst x) (snd x) w)) = effects w @ xs"
    "filter isSetTimeout xs = []"
    using stopped_step(2) [OF Cons.prems] by blast
  obtain ys where ys: "stopped (run ins (snd (step (fst x) (snd x) w)))"
    "effects (run ins (snd (step (fst x) (snd x) w))) = effects (snd (step (fst x) (snd x) w)) @ ys"
    "filter isSetTimeout ys = []"
    using Cons.IH [OF s1] by blast
  show ?case using xs ys by simp
qed

lemma timer_inv_PixelSocket: "timer_inv (PixelSocket opts)"
  by (simp add: timer_inv_def PixelSocket_def)

lemma timer_inv_run: "timer_inv w \<Longrightarrow> timer_inv (run ins w)"
  by (induction ins arbitrary: w) (simp_all add: timer_inv_step)

lemma disconnect_fields:
  "shouldReconnect (disconnect w) = False"
  "reconnectTimeout (disconnect w) = None"
  "pingTimeout (disconnect w) = None"
  "socket (disconnect w) = None"
  "isConnected (stats (disconnect w)) = False"
  by (simp_all add: disconnect_def Let_def clearTimeout_def clearInterval_def ws_close_def
        split: option.splits)

lemma timers_disconnect: "timer_inv w \<Longrightarrow> timers (disconnect w) = (\<lambda>_. None)"
proof
  fix i
  assume a: "timer_inv w"
  have b: "timer_inv (disconnect w)" using a by (rule timer_inv_disconnect)
  show "timers (disconnect w) i = None"
  proof (cases "timers (disconnect w) i")
    case None
    then show ?thesis .
  next
    case (Some t)
    then show ?thesis using b disconnect_fields(2,3) [of w]
      by (cases t) (auto simp: timer_inv_def)
  qed
qed

lemma stopped_disconnect: "timer_inv w \<Longrightarrow> stopped (disconnect w)"
  by (simp add: stopped_def noTimeout_def timers_disconnect disconnect_fields)

lemma halted_lifecycle: "lifecycle w' = lifecycle w \<Longrightarrow> halted w' = halted w"
  by (simp add: halted_def lifecycle_def)

lemma halted_basic [simp]:
  "halted (emit e w) = halted w"
  "halted (upd_stats f w) = halted w"
  "halted (w\<lparr>socks := a\<rparr>) = halted w"
  "halted (w\<lparr>objs := b\<rparr>) = halted w"
  by (simp_all add: halted_def)

lemma upd_stats_idem: "upd_stats (\<lambda>s. s\<lparr>isConnected := False\<rparr>) (upd_stats (\<lambda>s. s\<lparr>isConnected := False\<rparr>) w) = upd_stats (\<lambda>s. s\<lparr>isConnected := False\<rparr>) w"
  by (simp add: upd_stats_def)

lemma shouldReconnect_same: "\<not> shouldReconnect w \<Longrightarrow> w\<lparr>shouldReconnect := False\<rparr> = w"
  by (cases w) simp

lemma disconnect_quiet:
  "reconnectTimeout w = None \<Longrightarrow> pingTimeout w = None \<Longrightarrow> socket w = None \<Longrightarrow>
   \<not> shouldReconnect w \<Longrightarrow> disconnect w = upd_stats (\<lambda>s. s\<lparr>isConnected := False\<rparr>) w"
  by (simp add: disconnect_def Let_def shouldReconnect_same)

lemma disconnect_shape:
  "\<exists>v. disconnect w = upd_stats (\<lambda>s. s\<lparr>isConnected := False\<rparr>) v"
  by (simp add: disconnect_def Let_def) blast

lemma disconnect_idem: "disconnect (disconnect w) = disconnect w"
proof -
  obtain v where v: "disconnect w = upd_stats (\<lambda>s. s\<lparr>isConnected := False\<rparr>) v"
    using disconnect_shape by blast
  have "disconnect (disconnect w) = upd_stats (\<lambda>s. s\<lparr>isConnected := False\<rparr>) (disconnect w)"
    by (rule disconnect_quiet) (simp_all add: disconnect_fields)
  also have "\<dots> = disconnect w"
    unfolding v by (rule upd_stats_idem)
  finally show ?thesis .
qed

lemma halted_disconnect: "timer_inv w \<Longrightarrow> halted (disconnect w)"
  by (simp add: halted_def disconnect_fields timers_disconnect)

lemma frame_not_connect: "isFrameEffect e \<Longrightarrow> \<not> isConnectCall e \<and> \<not> isTimerArm e"
  by (induction e rule: isFrameEffect.induct) simp_all

lemma halted_step:
  assumes "halted w" and "i \<noteq> Connect"
  shows "halted (snd (step ev i w))"
    and "\<exists>xs. effects (snd (step ev i w)) = effects w @ xs \<and>
           filter isConnectCall xs = [] \<and> filter isTimerArm xs = []"
proof -
  have h: "\<not> shouldReconnect w" "socket w = None" "reconnectTimeout w = None"
    "pingTimeout w = None" "timers w = (\<lambda>_. None)"
    using assms(1) by (simp_all add: halted_def)
  show "halted (snd (step ev i w))"
  proof (cases i)
    case Connect
    then show ?thesis using assms(2) by simp
  next
    case Disconnect
    then show ?thesis using h assms(1)
      by (simp add: disconnect_quiet)
  next
    case (WsOpen sid)
    then show ?thesis using assms(1) h(2) by (simp add: onopen_def Let_def newDate_def halted_def)
  next
    case (WsMessage sid d)
    then show ?thesis using assms(1) by (simp add: halted_lifecycle [OF lifecycle_handleMessage])
  next
    case (WsClosed sid code reason)
    then show ?thesis using assms(1) h(1) by (simp add: onclose_stopped)
  next
    case (TimerFire t)
    then show ?thesis using assms(1) h(5) by (simp add: timerFire_def)
  qed (use assms(1) in \<open>simp_all add: halted_lifecycle [OF lifecycle_send]
         halted_lifecycle [OF lifecycle_onerror] halted_lifecycle [OF lifecycle_getStats']
         case_prod_beta\<close>)
  show "\<exists>xs. effects (snd (step ev i w)) = effects w @ xs \<and>
           filter isConnectCall xs = [] \<and> filter isTimerArm xs = []"
  proof (cases i)
    case Connect
    then show ?thesis using assms(2) by simp
  next
    case (WsMessage sid d)
    obtain xs where "effects (handleMessage ev d w) = effects w @ xs" "\<forall>e \<in> set xs. isFrameEffect e"
      using effects_handleMessage by blast
    then have "effects (handleMessage ev d w) = effects w @ xs \<and>
        filter isConnectCall xs = [] \<and> filter isTimerArm xs = []"
      using frame_not_connect by (auto simp: filter_empty_conv)
    then show ?thesis using WsMessage by auto
  next
    case (TimerFire t)
    then show ?thesis using h(5) by (simp add: timerFire_def)
  next
    case (WsOpen sid)
    then show ?thesis using h(2) by (simp add: effects_onopen)
  next
    case (WsClosed sid code reason)
    then show ?thesis using h(1) by (simp add: effects_onclose)
  next
    case (WsError sid m)
    then show ?thesis by (simp add: effects_onerror)
  next
    case Disconnect
    then show ?thesis using h by (simp add: effects_disconnect)
  next
    case (Send d)
    then show ?thesis using h(2) by (simp add: effects_send)
  qed (simp_all add: case_prod_beta)
qed

lemma halted_run:
  "halted w \<Longrightarrow> \<forall>x \<in> set ins. snd x \<noteq> Connect \<Longrightarrow>
     halted (run ins w) \<and>
     (\<exists>xs. effects (run ins w) = effects w @ xs \<and>
        filter isConnectCall xs = [] \<and> filter isTimerArm xs = [])"
proof (induction ins arbitrary: w)
  case Nil
  then show ?case by simp
next
  case (Cons x ins)
  have nc: "snd x \<noteq> Connect" and rest: "\<forall>y \<in> set ins. snd y \<noteq> Connect"
    using Cons.prems(2) by simp_all
  have s1: "halted (snd (step (fst x) (snd x) w))"
    using Cons.prems(1) nc by (rule halted_step(1))
  obtain xs where xs: "effects (snd (step (fst x) (snd x) w)) = effects w @ xs"
    "filter isConnectCall xs = []" "filter isTimerArm xs = []"
    using halted_step(2) [OF Cons.prems(1) nc] by blast
  obtain ys where ys: "halted (run ins (snd (step (fst x) (snd x) w)))"
    "effects (run ins (snd (step (fst x) (snd x) w))) = effects (snd (step (fst x) (snd x) w)) @ ys"
    "filter isConnectCall ys = []" "filter isTimerArm ys = []"
    using Cons.IH [OF s1 rest] by blast
  show ?case using xs ys by simp
qed

lemmas model_defs =
  PixelSocket_def connect_def Let_def emit_def outcome_def onopen_def newDate_def upd_stats_def
  ws_send_def startPingInterval_def setInterval_def setTimeout_def clearTimeout_def
  clearInterval_def ws_close_def disconnect_def onclose_def scheduleReconnect_def
  timerFire_def reconnectTick_def pingTick_def onerror_def send_def getStats_def stats_def
  initialStats_def

lemma droppedWorld_fields:
  "timers droppedWorld = (\<lambda>_. None)(0 \<mapsto> Interval 20000, 1 \<mapsto> Timeout 5000)"
  "reconnectTimeout droppedWorld = Some 1"
  "pingTimeout droppedWorld = Some 0"
  "socket droppedWorld = Some 0"
  "socks droppedWorld 0 = CLOSED"
  "nextSock droppedWorld = 1"
  "nextTimer droppedWorld = 2"
  "shouldReconnect droppedWorld = True"
  "stats droppedWorld = \<lparr>imagesReceived = 0, bytesReceived = Exact 0, connectedAt = Some 0,
      isConnected = False, reconnectAttempts = 1\<rparr>"
  by (simp_all add: droppedWorld_def model_defs quiet_def sampleEnv_def defaultOptions_def)

lemma reconnectedWorld_fields:
  "socks reconnectedWorld 1 = CLOSED"
  "autoReconnect (options reconnectedWorld) = True"
  "timers reconnectedWorld = (\<lambda>_. None)(1 \<mapsto> Interval 20000)"
  by (simp_all add: reconnectedWorld_def model_defs quiet_def sampleEnv_def defaultOptions_def)

lemma decompressAndUnpack_None_iff:
  "fst (decompressAndUnpack ev c w) = None \<longleftrightarrow>
     (\<not> zstdInitialized w \<and> zstdInitThrows ev \<noteq> None) \<or>
     (\<exists>e. zstdDecompress ev c = Inl e) \<or>
     (\<exists>d e. zstdDecompress ev c = Inr d \<and> msgpackDecode ev d = Inl e)"
  by (auto simp: decompressAndUnpack_def ensureZstdInit_def
        split: prod.splits option.splits sum.splits if_splits)

lemma stats_unchanged_on_decode_failure:
  assumes "(\<not> zstdInitialized w \<and> zstdInitThrows ev \<noteq> None) \<or>
     (\<exists>e. zstdDecompress ev c = Inl e) \<or>
     (\<exists>d e. zstdDecompress ev c = Inr d \<and> msgpackDecode ev d = Inl e)"
  shows "stats (handleMessage ev (ArrayBuffer c) w) = stats w"
  using assms handleMessage_failed [of ev c w] decompressAndUnpack_None_iff [of ev c w] by blast

lemma newEffects_handleMessage_throwing:
  assumes "fst (decompressAndUnpack ev c w) = Some (Obj object)"
    and "otype object = Some notificationType"
    and "(opayload object = None \<and> e = JsError ''Cannot read properties of undefined (reading 'imageLength')'') \<or>
         (\<exists>p. opayload object = Some p \<and>
            plusField (bytesReceived (stats w)) (imageLength p) = Inl e)"
  shows "newEffects w (handleMessage ev (ArrayBuffer c) w) =
     [ConsoleError ErrProcessing, CbError (errorMessage (toError ''Failed to process message'' e))]"
proof -
  obtain w1 where d: "decompressAndUnpack ev c w = (Some (Obj object), w1)"
    using assms(1) by (cases "decompressAndUnpack ev c w") auto
  have s1: "stats w1 = stats w" "trace w1 = trace w"
    using decompressAndUnpack_Some [OF d] by simp_all
  have p: "processImage ev (opayload object) w1 =
          (Some e, upd_stats (\<lambda>s. s\<lparr>imagesReceived := imagesReceived s + 1\<rparr>) w1)"
    using assms(3) s1 by (auto simp: processImage_None processImage_Some_throws)
  have "effects (handleMessage ev (ArrayBuffer c) w) =
      effects w @ [ConsoleError ErrProcessing,
        CbError (errorMessage (toError ''Failed to process message'' e))]"
    using d p assms(2) s1(2) by (simp add: handleMessage_def Let_def effects_def)
  then show ?thesis by (rule newEffects_append)
qed

lemma sample_sums:
  "plusField (Exact 0) (MNumber 100) = Inr (Exact 100)"
  "plusField (Exact 0) (MNumber 45678) = Inr (Exact 45678)"
  by (simp_all add: safe_def)

lemma newEffects_legacy_processImage:
  "newEffects w (legacy_processImage ev d m w) =
     ConsoleLog (LogReceivedImage (imagesReceived (stats w) + 1) (MNumber (int (length d)))) #
     CbImage d (fullMetadata ev m) #
     (if truthy (saveDirectory (options w))
      then Mkdir (the (saveDirectory (options w))) #
           (case mkdirThrows ev of
              Some e \<Rightarrow>
                [ConsoleError ErrSaving,
                 CbError (errorMessage (toError ''Failed to save image'' e))]
            | None \<Rightarrow>
                (case mtimestamp (fullMetadata ev m) of
                   TsValue \<Rightarrow>
                     [ConsoleError ErrSaving,
                      CbError ''metadata.timestamp.getTime is not a function'']
                 | TsNull \<Rightarrow>
                     [ConsoleError ErrSaving,
                      CbError ''Cannot read properties of null (reading 'getTime')'']
                 | TsDate t \<Rightarrow>
                     WriteFile (the (saveDirectory (options w)) @ ''/'' @
                                legacy_fileName d t (fullMetadata ev m)) d #
                     (case writeFileThrows ev of
                        Some e \<Rightarrow>
                          [ConsoleError ErrSaving,
                           CbError (errorMessage (toError ''Failed to save image'' e))]
                      | None \<Rightarrow>
                          [ConsoleLog (LogSavedImage
                             (the (saveDirectory (options w)) @ ''/'' @
                              legacy_fileName d t (fullMetadata ev m)))])))
      else [])"
  by (cases "saveDirectory (options w)")
     (simp_all add: newEffects_def legacy_processImage_def Let_def since_def
        trace_legacy_saveImage split: option.splits tsfield.splits)

lemma legacy_step_message_open:
  "legacy_step ev (LWsMessage 0 frame) (openWorld opts) =
     (Inr Unit, legacy_handleMessage ev frame (openWorld opts))"
  by (simp add: openWorld_fields)

lemma envelope_metadata:
  "fullMetadata ev (Some (parsedMetadata
      \<lparr>jtimestamp = KeyValue, jformat = Some ''png'', jmimeType = None, jfilename = None\<rparr>)) =
    \<lparr>mtimestamp = TsValue, mformat = Some ''png'', mmimeType = None, mfilename = None\<rparr>"
  "fullMetadata ev (Some (parsedMetadata
      \<lparr>jtimestamp = KeyAbsent, jformat = Some ''png'', jmimeType = None, jfilename = None\<rparr>)) =
    \<lparr>mtimestamp = TsDate (Some (now ev)), mformat = Some ''png'', mmimeType = None,
     mfilename = None\<rparr>"
  by (simp_all add: fullMetadata_def parsedMetadata_def)

lemma held_shouldReconnect [simp]: "held (w\<lparr>shouldReconnect := a\<rparr>) = held w"
  by (simp add: held_def)

lemma held_basic [simp]:
  "held (emit e w) = held w"
  "held (upd_stats f w) = held w"
  "held (clearTimeout i w) = held w"
  "held (clearInterval i w) = held w"
  "held (snd (setTimeout d w)) = held w"
  "held (snd (setInterval d w)) = held w"
  "held (snd (ws_send ev sid m w)) = held w"
  "held (ws_close sid w) = held w"
  "held (snd (newDate ev w)) = held w"
  by (simp_all add: held_def clearTimeout_def clearInterval_def setTimeout_def setInterval_def
        ws_send_def ws_close_def newDate_def emit_def upd_stats_def split: option.splits)

lemma held_updates [simp]:
  "held (w\<lparr>socks := a\<rparr>) = held w"
  "held (w\<lparr>timers := b\<rparr>) = held w"
  "held (w\<lparr>zstdInitialized := d\<rparr>) = held w"
  "held (w\<lparr>pingTimeout := e\<rparr>) = held w"
  "held (w\<lparr>reconnectTimeout := f\<rparr>) = held w"
  "held (w\<lparr>socket := g\<rparr>) = held w"
  by (simp_all add: held_def)

lemma held_connect [simp]: "held (snd (connect ev w)) = held w"
  by (simp add: connect_def Let_def held_def split: option.splits)

lemma held_startPingInterval [simp]: "held (startPingInterval w) = held w"
  by (simp add: startPingInterval_def Let_def case_prod_beta split: option.splits)

lemma held_onopen [simp]: "held (snd (onopen ev w)) = held w"
  by (simp add: onopen_def Let_def case_prod_beta split: option.splits)

lemma held_onerror [simp]: "held (onerror msg w) = held w"
  by (simp add: onerror_def Let_def)

lemma held_scheduleReconnect [simp]: "held (scheduleReconnect w) = held w"
  by (simp add: scheduleReconnect_def Let_def case_prod_beta split: option.splits)

lemma held_onclose [simp]: "held (onclose code reason w) = held w"
  by (simp add: onclose_def Let_def)

lemma held_pingTick [simp]: "held (pingTick ev w) = held w"
  by (simp add: pingTick_def case_prod_beta split: option.splits)

lemma held_reconnectTick [simp]: "held (reconnectTick ev w) = held w"
  using held_connect [of ev w]
  by (simp add: reconnectTick_def case_prod_beta split: option.splits)

lemma held_timerFire [simp]: "held (timerFire ev i w) = held w"
  by (simp add: timerFire_def split: option.splits timer.splits)

lemma held_send [simp]: "held (snd (send ev d w)) = held w"
  by (simp add: send_def split: option.splits)

lemma held_handleMessage [simp]: "held (handleMessage ev d w) = held w"
proof -
  have a: "held (snd (ensureZstdInit ev w)) = held w" for w
    by (simp add: ensureZstdInit_def split: option.splits)
  have b: "held (snd (decompressAndUnpack ev c w)) = held w" for c w
    by (simp add: decompressAndUnpack_def case_prod_beta a split: option.splits sum.splits)
  have c: "held (saveBlock ev dir p blob w) = held w" for dir p blob w
    by (simp add: saveBlock_def saveFailed_def Let_def split: option.splits)
  have d: "held (snd (processImage ev p w)) = held w" for p w
    by (simp add: processImage_def Let_def c split: option.splits sum.splits)
  show ?thesis
    by (simp add: handleMessage_def case_prod_beta Let_def b d
          split: msgdata.splits option.splits unpacked.splits)
qed

lemma held_disconnect [simp]: "held (disconnect w) = held w"
  by (simp add: disconnect_def Let_def split: option.splits)

lemma heap_inv_held: "held w' = held w \<Longrightarrow> heap_inv w' = heap_inv w"
  by (simp add: heap_inv_def held_def)

lemma objs_held: "held w' = held w \<Longrightarrow> a \<noteq> statsRef w \<Longrightarrow> objs w' a = objs w a"
  by (simp add: held_def) (metis fun_upd_other)

lemma heap_inv_getStats: "heap_inv w \<Longrightarrow> heap_inv (snd (getStats w))"
  by (auto simp: heap_inv_def getStats_def)

lemma held_step:
  "i \<noteq> GetStats \<Longrightarrow> \<forall>a v. i \<noteq> MutateSnapshot a v \<Longrightarrow> held (snd (step ev i w)) = held w"
  by (cases i) (simp_all add: case_prod_beta)

lemma heap_inv_step: "heap_inv w \<Longrightarrow> heap_inv (snd (step ev i w))"
proof (cases i)
  case GetStats
  assume "heap_inv w"
  then show ?thesis using GetStats by (simp add: heap_inv_getStats case_prod_beta)
next
  case (MutateSnapshot a v)
  assume "heap_inv w"
  then show ?thesis using MutateSnapshot by (simp add: heap_inv_def)
qed (simp_all add: heap_inv_held [OF held_connect]
        heap_inv_held [OF held_disconnect] heap_inv_held [OF held_send]
        heap_inv_held [OF held_onopen] heap_inv_held [OF held_handleMessage]
        heap_inv_held [OF held_onerror] heap_inv_held [OF held_onclose]
        heap_inv_held [OF held_timerFire] heap_inv_held [OF held_updates(1)])

lemma heap_inv_PixelSocket: "heap_inv (PixelSocket opts)"
  by (simp add: heap_inv_def PixelSocket_def)

lemma heap_inv_run: "heap_inv w \<Longrightarrow> heap_inv (run ins w)"
  by (induction ins arbitrary: w) (simp_all add: heap_inv_step)

lemma stats_mutate:
  "heap_inv w \<Longrightarrow> stats (snd (step ev (MutateSnapshot b v) w)) = stats w"
  by (auto simp: heap_inv_def stats_def)

lemma snapshot_step:
  assumes "heap_inv w" and "a < nextObj w" and "a \<noteq> statsRef w"
    and "\<forall>v. i \<noteq> MutateSnapshot a v"
  shows "objs (snd (step ev i w)) a = objs w a \<and> a < nextObj (snd (step ev i w))"
proof (cases i)
  case GetStats
  then show ?thesis using assms(2) by (simp add: getStats_def)
next
  case (MutateSnapshot b v)
  then show ?thesis using assms(2,4) by simp
next
  case Connect
  have "held (snd (step ev i w)) = held w" using Connect by (simp add: held_step)
  then show ?thesis using assms(2,3) objs_held [of "snd (step ev i w)" w a] by (simp add: held_def)
next
  case Disconnect
  have "held (snd (step ev i w)) = held w" using Disconnect by (simp add: held_step)
  then show ?thesis using assms(2,3) objs_held [of "snd (step ev i w)" w a] by (simp add: held_def)
next
  case (Send d)
  have "held (snd (step ev i w)) = held w" using Send by (simp add: held_step)
  then show ?thesis using assms(2,3) objs_held [of "snd (step ev i w)" w a] by (simp add: held_def)
next
  case IsConnected
  then show ?thesis using assms(2) by simp
next
  case (WsOpen sid)
  have "held (snd (step ev i w)) = held w" using WsOpen by (simp add: held_step)
  then show ?thesis using assms(2,3) objs_held [of "snd (step ev i w)" w a] by (simp add: held_def)
next
  case (WsMessage sid d)
  have "held (snd (step ev i w)) = held w" using WsMessage by (simp add: held_step)
  then show ?thesis using assms(2,3) objs_held [of "snd (step ev i w)" w a] by (simp add: held_def)
next
  case (WsError sid m)
  have "held (snd (step ev i w)) = held w" using WsError by (simp add: held_step)
  then show ?thesis using assms(2,3) objs_held [of "snd (step ev i w)" w a] by (simp add: held_def)
next
  case (WsClosed sid c r)
  have "held (snd (step ev i w)) = held w" using WsClosed by (simp add: held_step)
  then show ?thesis using assms(2,3) objs_held [of "snd (step ev i w)" w a] by (simp add: held_def)
next
  case (TimerFire t)
  have "held (snd (step ev i w)) = held w" using TimerFire by (simp add: held_step)
  then show ?thesis using assms(2,3) objs_held [of "snd (step ev i w)" w a] by (simp add: held_def)
qed

lemma snapshot_run:
  "heap_inv w \<Longrightarrow> a < nextObj w \<Longrightarrow> a \<noteq> statsRef w \<Longrightarrow>
   \<forall>x \<in> set js. \<forall>v. snd x \<noteq> MutateSnapshot a v \<Longrightarrow> objs (run js w) a = objs w a"
proof (induction js arbitrary: w)
  case Nil
  then show ?case by simp
next
  case (Cons x js)
  have nm: "\<forall>v. snd x \<noteq> MutateSnapshot a v" using Cons.prems(4) by simp
  have s: "objs (snd (step (fst x) (snd x) w)) a = objs w a"
    "a < nextObj (snd (step (fst x) (snd x) w))"
    using snapshot_step [OF Cons.prems(1,2,3) nm] by simp_all
  have "objs (run js (snd (step (fst x) (snd x) w))) a = objs (snd (step (fst x) (snd x) w)) a"
    using Cons.IH [OF heap_inv_step [OF Cons.prems(1)] s(2)] Cons.prems(3,4) by simp
  then show ?case using s(1) by simp
qed

lemma snapshotWorld_fields:
  "step quiet GetStats (openWorld (defaultOptions ''ws://host/ws'')) = (Inr (Ref 1), snapshotWorld)"
  "stats snapshotWorld = \<lparr>imagesReceived = 0, bytesReceived = Exact 0, connectedAt = Some 0,
      isConnected = True, reconnectAttempts = 0\<rparr>"
  "nextSock snapshotWorld = 1" "socks snapshotWorld 0 = OPEN"
  by (simp_all add: snapshotWorld_def openWorld_def model_defs quiet_def sampleEnv_def
        defaultOptions_def)

lemma snapshotWorld_decode:
  "fst (decompressAndUnpack (sampleEnv u) sampleFrame snapshotWorld) = Some u"
  by (simp add: decompressAndUnpack_def ensureZstdInit_def sampleEnv_def split: prod.splits)

lemma stats_pingTick [simp]: "stats (pingTick ev w) = stats w"
  by (simp add: pingTick_def ws_send_def split: option.splits)

lemma newEffects_pingTick:
  "newEffects w (pingTick ev w) =
     (case socket w of
        None \<Rightarrow> []
      | Some sid \<Rightarrow>
          if socks w sid = OPEN then
            (case wsSendThrows ev of
               None \<Rightarrow> [WsSend sid (TextFrame pingMessage), ConsoleLog LogSentPing]
             | Some e \<Rightarrow> [ConsoleError ErrSendingPing])
          else [])"
  by (rule newEffects_append) (rule effects_pingTick)

lemma onopen_arms_interval:
  assumes "fst (onopen ev w) = None"
  shows "timers (snd (onopen ev w)) (nextTimer w) = Some (Interval 20000) \<and>
         pingTimeout (snd (onopen ev w)) = Some (nextTimer w)"
  using assms
  by (auto simp: onopen_def Let_def case_prod_beta newDate_def ws_send_def emit_def upd_stats_def
        startPingInterval_def setInterval_def clearInterval_def split: option.splits)

lemma connectingWorld_fields:
  "nextSock (run [(quiet, Connect)] (PixelSocket opts)) = 1"
  "socks (run [(quiet, Connect)] (PixelSocket opts)) 0 = CONNECTING"
  "nextTimer (run [(quiet, Connect)] (PixelSocket opts)) = 0"
  "snd (step quiet (WsOpen 0) (run [(quiet, Connect)] (PixelSocket opts))) = openWorld opts"
  "fst (step quiet (WsOpen 0) (run [(quiet, Connect)] (PixelSocket opts))) = Inr Unit"
  by (simp_all add: openWorld_def quiet_def sampleEnv_def PixelSocket_def connect_def Let_def
        emit_def outcome_def onopen_def newDate_def upd_stats_def ws_send_def
        startPingInterval_def setInterval_def)

lemma newEffects_decode_failure:
  assumes "(\<not> zstdInitialized w \<and> zstdInitThrows ev \<noteq> None) \<or>
     (\<exists>e. zstdDecompress ev c = Inl e) \<or>
     (\<exists>d e. zstdDecompress ev c = Inr d \<and> msgpackDecode ev d = Inl e)"
  shows "newEffects w (handleMessage ev (ArrayBuffer c) w) =
     (if \<not> zstdInitialized w \<and> zstdInitThrows ev \<noteq> None then [ConsoleError ErrZstdInit] else []) @
     [ConsoleError ErrDecompressAndUnpack, ConsoleError ErrClientFailed]"
proof -
  have "effects (handleMessage ev (ArrayBuffer c) w) = effects w @
     (if \<not> zstdInitialized w \<and> zstdInitThrows ev \<noteq> None then [ConsoleError ErrZstdInit] else []) @
     [ConsoleError ErrDecompressAndUnpack, ConsoleError ErrClientFailed]"
    using assms
    by (auto simp: handleMessage_def decompressAndUnpack_def ensureZstdInit_def effects_def
          split: option.splits sum.splits)
  then show ?thesis by (rule newEffects_append)
qed

lemma newEffects_onerror:
  "newEffects w (onerror msg w) =
       [ConsoleError ErrSocket,
        CbError (''WebSocket error: '' @
                 (case msg of None \<Rightarrow> ''Unknown error''
                  | Some t \<Rightarrow> if t = [] then ''Unknown error'' else t))]"
  by (rule newEffects_append) (rule effects_onerror)

lemma cberror_save_failure:
  assumes "plusField (bytesReceived (stats w)) (imageLength p) = Inr b"
    and "truthy (saveDirectory (options w))" and "blobData p \<noteq> None"
    and "mkdirThrows ev = Some e \<or> (mkdirThrows ev = None \<and> writeFileThrows ev = Some e)"
  shows "filter isCbError (newEffects w (snd (processImage ev (Some p) w))) =
     [CbError (errorMessage (toError ''Failed to save image'' e))]"
  using assms(2,3,4) by (auto simp: newEffects_processImage [OF assms(1)])

lemma lifecycle_connect_failure:
  "wsCtorThrows ev = Some e \<Longrightarrow> lifecycle (snd (connect ev w)) = lifecycle w"
  by (simp add: connect_def Let_def)

lemma newEffects_connect_failure:
  "wsCtorThrows ev = Some e \<Longrightarrow>
   newEffects w (snd (connect ev w)) =
     [ConsoleLog (LogConnecting (url (options w))),
      CbError (errorMessage (toError ''Failed to connect'' e))]"
  by (rule newEffects_append) (simp add: effects_connect)

lemma trace_scheduleReconnect:
  "trace (scheduleReconnect w) = trace w @
     (case reconnectTimeout w of Some i \<Rightarrow> [(ClearTimeout i, stats w)] | None \<Rightarrow> []) @
     (let s = (stats w)\<lparr>reconnectAttempts := reconnectAttempts (stats w) + 1\<rparr>;
          delay = (if reconnectAttempts (stats w) + 1 \<le> maxReconnectAttempts (options w)
                   then reconnectDelay (options w) else 60000)
      in [(ConsoleLog (LogReconnecting delay
             (if reconnectAttempts (stats w) + 1 \<le> maxReconnectAttempts (options w)
              then ''attempt '' @ numberToString (reconnectAttempts (stats w) + 1) @ ''/'' @
                   numberToString (maxReconnectAttempts (options w))
              else ''attempt '' @ numberToString (reconnectAttempts (stats w) + 1) @
                   '' (ongoing)'')), s),
          (SetTimeout (nextTimer w) delay, s)])"
  by (simp add: scheduleReconnect_def Let_def case_prod_beta setTimeout_def clearTimeout_def
        emit_def stats_def upd_stats_def split: option.splits)

lemma state_scheduleReconnect:
  "timers (scheduleReconnect w) =
     (case reconnectTimeout w of Some i \<Rightarrow> (timers w)(i := None) | None \<Rightarrow> timers w)
       (nextTimer w \<mapsto> Timeout (if reconnectAttempts (stats w) + 1 \<le> maxReconnectAttempts (options w)
                                then reconnectDelay (options w) else 60000))"
  "reconnectTimeout (scheduleReconnect w) = Some (nextTimer w)"
  "stats (scheduleReconnect w) = (stats w)\<lparr>reconnectAttempts := reconnectAttempts (stats w) + 1\<rparr>"
  by (simp_all add: scheduleReconnect_def Let_def case_prod_beta setTimeout_def clearTimeout_def
        emit_def stats_def upd_stats_def split: option.splits)

lemma trace_legacy_scheduleReconnect:
  "trace (legacy_scheduleReconnect w) = trace w @
     (case reconnectTimeout w of Some i \<Rightarrow> [(ClearTimeout i, stats w)] | None \<Rightarrow> []) @
     (let s = (stats w)\<lparr>reconnectAttempts := reconnectAttempts (stats w) + 1\<rparr>
      in [(ConsoleLog (LogReconnecting (reconnectDelay (options w))
             (''attempt '' @ numberToString (reconnectAttempts (stats w) + 1) @ ''/'' @
              numberToString (maxReconnectAttempts (options w)))), s),
          (SetTimeout (nextTimer w) (reconnectDelay (options w)), s)])"
  by (simp add: legacy_scheduleReconnect_def Let_def case_prod_beta setTimeout_def
        clearTimeout_def emit_def stats_def upd_stats_def split: option.splits)

lemma state_legacy_scheduleReconnect:
  "timers (legacy_scheduleReconnect w) =
     (case reconnectTimeout w of Some i \<Rightarrow> (timers w)(i := None) | None \<Rightarrow> timers w)
       (nextTimer w \<mapsto> Timeout (reconnectDelay (options w)))"
  "reconnectTimeout (legacy_scheduleReconnect w) = Some (nextTimer w)"
  "stats (legacy_scheduleReconnect w) =
     (stats w)\<lparr>reconnectAttempts := reconnectAttempts (stats w) + 1\<rparr>"
  by (simp_all add: legacy_scheduleReconnect_def Let_def case_prod_beta setTimeout_def
        clearTimeout_def emit_def stats_def upd_stats_def split: option.splits)

lemma stats_socks [simp]: "stats (w\<lparr>socks := x\<rparr>) = stats w"
  by (simp add: stats_def)

lemma closing_fields [simp]:
  "trace (emit b (emit a (upd_stats f (w\<lparr>socks := x\<rparr>)))) =
     trace w @ [(a, f (stats w)), (b, f (stats w))]"
  "stats (emit b (emit a (upd_stats f (w\<lparr>socks := x\<rparr>)))) = f (stats w)"
  "options (emit b (emit a (upd_stats f (w\<lparr>socks := x\<rparr>)))) = options w"
  "timers (emit b (emit a (upd_stats f (w\<lparr>socks := x\<rparr>)))) = timers w"
  "nextTimer (emit b (emit a (upd_stats f (w\<lparr>socks := x\<rparr>)))) = nextTimer w"
  "reconnectTimeout (emit b (emit a (upd_stats f (w\<lparr>socks := x\<rparr>)))) = reconnectTimeout w"
  "shouldReconnect (emit b (emit a (upd_stats f (w\<lparr>socks := x\<rparr>)))) = shouldReconnect w"
  by (simp_all add: emit_def upd_stats_def stats_def)

lemma reset_on_open:
  "sid < nextSock w \<Longrightarrow> socks w sid = CONNECTING \<Longrightarrow>
   reconnectAttempts (stats (snd (step ev (WsOpen sid) w))) = 0"
  by (simp add: onopen_def Let_def case_prod_beta newDate_def ws_send_def outcome_def
        startPingInterval_def setInterval_def clearInterval_def emit_def upd_stats_def stats_def
        split: option.splits)

lemma newEffects_reconnectTick:
  "newEffects w (reconnectTick ev w) =
     ConsoleLog (LogConnecting (url (options w))) #
       (case wsCtorThrows ev of
          Some e \<Rightarrow> [CbError (errorMessage (toError ''Failed to connect'' e)),
                     ConsoleError ErrReconnectFailed]
        | None \<Rightarrow> [WsNew (nextSock w) (url (options w))])"
  by (rule newEffects_append) (simp add: effects_reconnectTick)

lemma refusedWorld_fields:
  "shouldReconnect refusedWorld" "autoReconnect (options refusedWorld)"
  "socks refusedWorld 1 = CONNECTING" "nextSock refusedWorld = 2"
  "reconnectAttempts (stats refusedWorld) = 1"
  "maxReconnectAttempts (options refusedWorld) = 1"
  "timers refusedWorld = (\<lambda>_. None)(0 \<mapsto> Interval 20000)"
  by (simp_all add: refusedWorld_def impatientOptions_def legacy_defaultOptions_def quiet_def
        sampleEnv_def model_defs legacy_onclose_def legacy_scheduleReconnect_def)

lemma retryingWorld_fields:
  "socks retryingWorld 1 = CONNECTING" "nextSock retryingWorld = 2"
  "reconnectAttempts (stats retryingWorld) = 1"
  by (simp_all add: retryingWorld_def droppedWorld_def model_defs quiet_def sampleEnv_def
        defaultOptions_def)

lemma fallbackWorld_fields:
  "maxReconnectAttempts (options (openWorld fallbackOptions)) = 0"
  "autoReconnect (options (openWorld fallbackOptions))"
  "reconnectDelay (options (openWorld (defaultOptions ''ws://host/ws''))) = 5000"
  "maxReconnectAttempts (options (openWorld (defaultOptions ''ws://host/ws''))) = 10"
  "autoReconnect (options (openWorld (defaultOptions ''ws://host/ws'')))"
  "wsCtorThrows quiet = None"
  "reconnectDelay (options (openWorld (legacy_defaultOptions ''ws://host/ws''))) = 5000"
  "maxReconnectAttempts (options (openWorld (legacy_defaultOptions ''ws://host/ws''))) = 10"
  "autoReconnect (options (openWorld (legacy_defaultOptions ''ws://host/ws'')))"
  by (simp_all add: fallbackOptions_def defaultOptions_def legacy_defaultOptions_def
        quiet_def sampleEnv_def)

lemma url_droppedWorld: "url (options droppedWorld) = ''ws://host/ws''"
  unfolding droppedWorld_def options_run by (simp add: PixelSocket_def defaultOptions_def)

lemma attempt_texts:
  "numberToString 1 = ''1''" "numberToString 10 = ''10''"
  by (simp_all add: numberToString_def decimal.simps digit_def)

lemma timeout_is_reconnectTimeout:
  "timers (run ins (PixelSocket opts)) j = Some (Timeout d) \<Longrightarrow>
   reconnectTimeout (run ins (PixelSocket opts)) = Some j"
proof -
  have "timer_inv (run ins (PixelSocket opts))"
    by (simp add: timer_inv_run timer_inv_PixelSocket)
  then show "timers (run ins (PixelSocket opts)) j = Some (Timeout d) \<Longrightarrow>
      reconnectTimeout (run ins (PixelSocket opts)) = Some j"
    unfolding timer_inv_def by blast
qed


section \<open>Claims\<close>

text \<open>
  C1, as the claim states it, at a concrete input: a legacy instance with
  \<open>maxReconnectAttempts = 1\<close> has lost its connection once and has tried again; the new
  socket closes without having opened. Auto-reconnect is on, \<open>disconnect()\<close> was never
  called and the counter, 1, is not above the maximum, yet no reconnect is scheduled.
\<close>

theorem legacy_stops_retrying:
  "shouldReconnect refusedWorld \<and> autoReconnect (options refusedWorld) \<and>
   socks refusedWorld 1 = CONNECTING \<and>
   reconnectAttempts (stats refusedWorld) = 1 \<and>
   maxReconnectAttempts (options refusedWorld) = 1 \<and>
   newEffects refusedWorld
     (snd (legacy_step quiet (LWsClosed 1 1006 ''refused'') refusedWorld)) =
     [ConsoleLog (LogDisconnected 1006 ''refused''), CbDisconnect 1006 ''refused''] \<and>
   timers (snd (legacy_step quiet (LWsClosed 1 1006 ''refused'') refusedWorld)) =
     (\<lambda>_. None)(0 \<mapsto> Interval 20000)"
  using refusedWorld_fields
  by (simp add: legacy_onclose_def Let_def newEffects_def since_def)

text \<open>
  C1, amended. On the primary class every close event of a socket, while auto-reconnect
  is on and \<open>disconnect()\<close> has not been called, schedules a reconnect, whatever the
  counter is: the reconnect timer of the instance, if any, is cleared, the counter is
  incremented, and then a timer is armed whose delay is \<open>reconnectDelay\<close> if the
  incremented counter is at most \<open>maxReconnectAttempts\<close> and 60000 ms otherwise. A pending
  timeout is always the reconnect timer of the instance; when it fires, \<open>connect()\<close> is
  called. The counter is set to 0 when a socket opens. The legacy class schedules a
  reconnect, always after \<open>reconnectDelay\<close>, only while the counter is below
  \<open>maxReconnectAttempts\<close>; at or above it a close event schedules nothing.
\<close>

theorem reconnect_policy:
  "(sid < nextSock w \<and> socks w sid \<noteq> CLOSED \<and> shouldReconnect w \<and> autoReconnect (options w) \<longrightarrow>
      (let w' = snd (step ev (WsClosed sid code reason) w);
           n = reconnectAttempts (stats w) + 1;
           delay = (if n \<le> maxReconnectAttempts (options w)
                    then reconnectDelay (options w) else 60000);
           s0 = (stats w)\<lparr>isConnected := False\<rparr>;
           s1 = s0\<lparr>reconnectAttempts := n\<rparr>
       in since w w' =
            [(ConsoleLog (LogDisconnected code reason), s0), (CbDisconnect code reason, s0)] @
            (case reconnectTimeout w of Some i \<Rightarrow> [(ClearTimeout i, s0)] | None \<Rightarrow> []) @
            [(ConsoleLog (LogReconnecting delay
                (if n \<le> maxReconnectAttempts (options w)
                 then ''attempt '' @ numberToString n @ ''/'' @
                      numberToString (maxReconnectAttempts (options w))
                 else ''attempt '' @ numberToString n @ '' (ongoing)'')), s1),
             (SetTimeout (nextTimer w) delay, s1)] \<and>
          timers w' =
            (case reconnectTimeout w of Some i \<Rightarrow> (timers w)(i := None) | None \<Rightarrow> timers w)
              (nextTimer w \<mapsto> Timeout delay) \<and>
          reconnectTimeout w' = Some (nextTimer w) \<and>
          stats w' = s1)) \<and>
   (timers w i = Some (Timeout d) \<longrightarrow>
      newEffects w (snd (step ev (TimerFire i) w)) =
        ConsoleLog (LogConnecting (url (options w))) #
        (case wsCtorThrows ev of
           Some e \<Rightarrow> [CbError (errorMessage (toError ''Failed to connect'' e)),
                      ConsoleError ErrReconnectFailed]
         | None \<Rightarrow> [WsNew (nextSock w) (url (options w))])) \<and>
   (sid < nextSock w \<and> socks w sid = CONNECTING \<longrightarrow>
      reconnectAttempts (stats (snd (step ev (WsOpen sid) w))) = 0) \<and>
   (\<forall>j t. timers (run ins (PixelSocket opts)) j = Some (Timeout t) \<longrightarrow>
      reconnectTimeout (run ins (PixelSocket opts)) = Some j) \<and>
   (sid < nextSock w \<and> socks w sid \<noteq> CLOSED \<and> shouldReconnect w \<and> autoReconnect (options w) \<longrightarrow>
      (let w' = snd (legacy_step ev (LWsClosed sid code reason) w);
           n = reconnectAttempts (stats w) + 1;
           s0 = (stats w)\<lparr>isConnected := False\<rparr>;
           s1 = s0\<lparr>reconnectAttempts := n\<rparr>
       in if reconnectAttempts (stats w) < maxReconnectAttempts (options w)
          then since w w' =
                 [(ConsoleLog (LogDisconnected code reason), s0), (CbDisconnect code reason, s0)] @
                 (case reconnectTimeout w of Some i \<Rightarrow> [(ClearTimeout i, s0)] | None \<Rightarrow> []) @
                 [(ConsoleLog (LogReconnecting (reconnectDelay (options w))
                     (''attempt '' @ numberToString n @ ''/'' @
                      numberToString (maxReconnectAttempts (options w)))), s1),
                  (SetTimeout (nextTimer w) (reconnectDelay (options w)), s1)] \<and>
               timers w' =
                 (case reconnectTimeout w of Some i \<Rightarrow> (timers w)(i := None) | None \<Rightarrow> timers w)
                   (nextTimer w \<mapsto> Timeout (reconnectDelay (options w))) \<and>
               stats w' = s1
          else since w w' =
                 [(ConsoleLog (LogDisconnected code reason), s0), (CbDisconnect code reason, s0)] \<and>
               timers w' = timers w \<and> stats w' = s0))"
proof (intro conjI impI allI)
  assume a: "sid < nextSock w \<and> socks w sid \<noteq> CLOSED \<and> shouldReconnect w \<and> autoReconnect (options w)"
  let ?v = "emit (CbDisconnect code reason) (emit (ConsoleLog (LogDisconnected code reason))
       (upd_stats (\<lambda>s. s\<lparr>isConnected := False\<rparr>) (w\<lparr>socks := (socks w)(sid := CLOSED)\<rparr>)))"
  have s: "snd (step ev (WsClosed sid code reason) w) = scheduleReconnect ?v"
    using a by (simp add: onclose_def Let_def)
  show "let w' = snd (step ev (WsClosed sid code reason) w);
           n = reconnectAttempts (stats w) + 1;
           delay = (if n \<le> maxReconnectAttempts (options w)
                    then reconnectDelay (options w) else 60000);
           s0 = (stats w)\<lparr>isConnected := False\<rparr>;
           s1 = s0\<lparr>reconnectAttempts := n\<rparr>
       in since w w' =
            [(ConsoleLog (LogDisconnected code reason), s0), (CbDisconnect code reason, s0)] @
            (case reconnectTimeout w of Some i \<Rightarrow> [(ClearTimeout i, s0)] | None \<Rightarrow> []) @
            [(ConsoleLog (LogReconnecting delay
                (if n \<le> maxReconnectAttempts (options w)
                 then ''attempt '' @ numberToString n @ ''/'' @
                      numberToString (maxReconnectAttempts (options w))
                 else ''attempt '' @ numberToString n @ '' (ongoing)'')), s1),
             (SetTimeout (nextTimer w) delay, s1)] \<and>
          timers w' =
            (case reconnectTimeout w of Some i \<Rightarrow> (timers w)(i := None) | None \<Rightarrow> timers w)
              (nextTimer w \<mapsto> Timeout delay) \<and>
          reconnectTimeout w' = Some (nextTimer w) \<and>
          stats w' = s1"
    unfolding s Let_def
    by (simp add: since_def trace_scheduleReconnect state_scheduleReconnect Let_def
          split: option.splits)
next
  assume t: "timers w i = Some (Timeout d)"
  have "effects (snd (step ev (TimerFire i) w)) = effects w @
        ConsoleLog (LogConnecting (url (options w))) #
        (case wsCtorThrows ev of
           Some e \<Rightarrow> [CbError (errorMessage (toError ''Failed to connect'' e)),
                      ConsoleError ErrReconnectFailed]
         | None \<Rightarrow> [WsNew (nextSock w) (url (options w))])"
    using t by (simp add: timerFire_def effects_reconnectTick split: option.splits)
  then show "newEffects w (snd (step ev (TimerFire i) w)) =
        ConsoleLog (LogConnecting (url (options w))) #
        (case wsCtorThrows ev of
           Some e \<Rightarrow> [CbError (errorMessage (toError ''Failed to connect'' e)),
                      ConsoleError ErrReconnectFailed]
         | None \<Rightarrow> [WsNew (nextSock w) (url (options w))])"
    by (rule newEffects_append)
next
  assume a: "sid < nextSock w \<and> socks w sid = CONNECTING"
  show "reconnectAttempts (stats (snd (step ev (WsOpen sid) w))) = 0"
    by (rule reset_on_open) (use a in simp_all)
next
  fix j t
  assume "timers (run ins (PixelSocket opts)) j = Some (Timeout t)"
  then show "reconnectTimeout (run ins (PixelSocket opts)) = Some j"
    by (rule timeout_is_reconnectTimeout)
next
  assume a: "sid < nextSock w \<and> socks w sid \<noteq> CLOSED \<and> shouldReconnect w \<and> autoReconnect (options w)"
  let ?v = "emit (CbDisconnect code reason) (emit (ConsoleLog (LogDisconnected code reason))
       (upd_stats (\<lambda>s. s\<lparr>isConnected := False\<rparr>) (w\<lparr>socks := (socks w)(sid := CLOSED)\<rparr>)))"
  have s: "snd (legacy_step ev (LWsClosed sid code reason) w) =
      (if reconnectAttempts (stats w) < maxReconnectAttempts (options w)
       then legacy_scheduleReconnect ?v else ?v)"
    using a by (simp add: legacy_onclose_def Let_def)
  show "let w' = snd (legacy_step ev (LWsClosed sid code reason) w);
           n = reconnectAttempts (stats w) + 1;
           s0 = (stats w)\<lparr>isConnected := False\<rparr>;
           s1 = s0\<lparr>reconnectAttempts := n\<rparr>
       in if reconnectAttempts (stats w) < maxReconnectAttempts (options w)
          then since w w' =
                 [(ConsoleLog (LogDisconnected code reason), s0), (CbDisconnect code reason, s0)] @
                 (case reconnectTimeout w of Some i \<Rightarrow> [(ClearTimeout i, s0)] | None \<Rightarrow> []) @
                 [(ConsoleLog (LogReconnecting (reconnectDelay (options w))
                     (''attempt '' @ numberToString n @ ''/'' @
                      numberToString (maxReconnectAttempts (options w)))), s1),
                  (SetTimeout (nextTimer w) (reconnectDelay (options w)), s1)] \<and>
               timers w' =
                 (case reconnectTimeout w of Some i \<Rightarrow> (timers w)(i := None) | None \<Rightarrow> timers w)
                   (nextTimer w \<mapsto> Timeout (reconnectDelay (options w))) \<and>
               stats w' = s1
          else since w w' =
                 [(ConsoleLog (LogDisconnected code reason), s0), (CbDisconnect code reason, s0)] \<and>
               timers w' = timers w \<and> stats w' = s0"
    unfolding s Let_def
    by (simp add: since_def trace_legacy_scheduleReconnect state_legacy_scheduleReconnect Let_def
          split: option.splits)
qed

theorem reconnect_policy_witness:
  "newEffects (openWorld (defaultOptions ''ws://host/ws''))
     (snd (step quiet (WsClosed 0 1006 ''lost'') (openWorld (defaultOptions ''ws://host/ws'')))) =
     [ConsoleLog (LogDisconnected 1006 ''lost''), CbDisconnect 1006 ''lost'',
      ConsoleLog (LogReconnecting 5000 ''attempt 1/10''), SetTimeout 1 5000] \<and>
   reconnectAttempts (stats
     (snd (step quiet (WsClosed 0 1006 ''lost'') (openWorld (defaultOptions ''ws://host/ws''))))) = 1 \<and>
   timers (snd (step quiet (WsClosed 0 1006 ''lost'') (openWorld fallbackOptions))) 1 =
     Some (Timeout 60000) \<and>
   timers droppedWorld 1 = Some (Timeout 5000) \<and>
   reconnectTimeout droppedWorld = Some 1 \<and>
   newEffects droppedWorld (snd (step quiet (TimerFire 1) droppedWorld)) =
     [ConsoleLog (LogConnecting ''ws://host/ws''), WsNew 1 ''ws://host/ws''] \<and>
   reconnectAttempts (stats retryingWorld) = 1 \<and>
   reconnectAttempts (stats (snd (step quiet (WsOpen 1) retryingWorld))) = 0 \<and>
   newEffects (openWorld (legacy_defaultOptions ''ws://host/ws''))
     (snd (legacy_step quiet (LWsClosed 0 1006 ''lost'')
        (openWorld (legacy_defaultOptions ''ws://host/ws'')))) =
     [ConsoleLog (LogDisconnected 1006 ''lost''), CbDisconnect 1006 ''lost'',
      ConsoleLog (LogReconnecting 5000 ''attempt 1/10''), SetTimeout 1 5000] \<and>
   newEffects refusedWorld
     (snd (legacy_step quiet (LWsClosed 1 1006 ''refused'') refusedWorld)) =
     [ConsoleLog (LogDisconnected 1006 ''refused''), CbDisconnect 1006 ''refused'']"
proof -
  let ?W = "openWorld (defaultOptions ''ws://host/ws'')"
  let ?L = "openWorld (legacy_defaultOptions ''ws://host/ws'')"
  note a = reconnect_policy [where sid = 0 and w = ?W and ev = quiet and code = 1006
      and reason = "''lost''"]
  note b = reconnect_policy [where sid = 0 and w = "openWorld fallbackOptions" and ev = quiet
      and code = 1006 and reason = "''lost''"]
  note c = reconnect_policy [where w = droppedWorld and ev = quiet and i = 1 and d = 5000
      and ins = "[(quiet, Connect), (quiet, WsOpen 0), (quiet, WsClosed 0 1006 ''lost'')]"
      and opts = "defaultOptions ''ws://host/ws''"]
  note d = reconnect_policy [where sid = 1 and w = retryingWorld and ev = quiet]
  note e = reconnect_policy [where sid = 0 and w = ?L and ev = quiet and code = 1006
      and reason = "''lost''"]
  note f = reconnect_policy [where sid = 1 and w = refusedWorld and ev = quiet and code = 1006
      and reason = "''refused''"]
  have 1: "newEffects ?W (snd (step quiet (WsClosed 0 1006 ''lost'') ?W)) =
     [ConsoleLog (LogDisconnected 1006 ''lost''), CbDisconnect 1006 ''lost'',
      ConsoleLog (LogReconnecting 5000 ''attempt 1/10''), SetTimeout 1 5000]"
    "reconnectAttempts (stats (snd (step quiet (WsClosed 0 1006 ''lost'') ?W))) = 1"
    using a fallbackWorld_fields attempt_texts
    by (simp_all del: step.simps add: Let_def newEffects_def openWorld_fields stats_openWorld)
  have 2: "timers (snd (step quiet (WsClosed 0 1006 ''lost'') (openWorld fallbackOptions))) 1 =
     Some (Timeout 60000)"
    using b fallbackWorld_fields
    by (simp del: step.simps add: Let_def openWorld_fields stats_openWorld)
  have 3: "timers droppedWorld 1 = Some (Timeout 5000)" "reconnectTimeout droppedWorld = Some 1"
    by (simp_all add: droppedWorld_fields)
  have 4: "newEffects droppedWorld (snd (step quiet (TimerFire 1) droppedWorld)) =
     [ConsoleLog (LogConnecting ''ws://host/ws''), WsNew 1 ''ws://host/ws'']"
    using c 3 fallbackWorld_fields url_droppedWorld
    by (simp del: step.simps add: droppedWorld_fields)
  have 5: "reconnectAttempts (stats (snd (step quiet (WsOpen 1) retryingWorld))) = 0"
    using d retryingWorld_fields by (simp del: step.simps)
  have 6: "newEffects ?L (snd (legacy_step quiet (LWsClosed 0 1006 ''lost'') ?L)) =
     [ConsoleLog (LogDisconnected 1006 ''lost''), CbDisconnect 1006 ''lost'',
      ConsoleLog (LogReconnecting 5000 ''attempt 1/10''), SetTimeout 1 5000]"
    using e fallbackWorld_fields attempt_texts
    by (simp del: step.simps legacy_step.simps
          add: Let_def newEffects_def openWorld_fields stats_openWorld)
  have 7: "newEffects refusedWorld
     (snd (legacy_step quiet (LWsClosed 1 1006 ''refused'') refusedWorld)) =
     [ConsoleLog (LogDisconnected 1006 ''refused''), CbDisconnect 1006 ''refused'']"
    using f refusedWorld_fields
    by (simp del: step.simps legacy_step.simps add: Let_def newEffects_def)
  show ?thesis using 1 2 3 4 5 6 7 retryingWorld_fields(3) by simp
qed

text \<open>
  C2 (the primary class at two concrete frames). A frame that decodes to an object of
  the notification type with no payload in it is counted as an image, although no
  payload was extracted: \<open>imagesReceived\<close> goes from 0 to 1, \<open>bytesReceived\<close> stays, and
  the \<open>TypeError\<close> of the read is what the caller is told. The same happens for a payload
  whose \<open>imageLength\<close> is a BigInt: the image is counted, its bytes are not.
\<close>

theorem unextracted_frame_is_counted:
  "fst (decompressAndUnpack (sampleEnv bareNotification) sampleFrame
     (openWorld (defaultOptions ''ws://host/ws''))) = Some bareNotification \<and>
   stats (openWorld (defaultOptions ''ws://host/ws'')) =
     \<lparr>imagesReceived = 0, bytesReceived = Exact 0, connectedAt = Some 0,
      isConnected = True, reconnectAttempts = 0\<rparr> \<and>
   stats (snd (step (sampleEnv bareNotification) (WsMessage 0 (ArrayBuffer sampleFrame))
     (openWorld (defaultOptions ''ws://host/ws'')))) =
     \<lparr>imagesReceived = 1, bytesReceived = Exact 0, connectedAt = Some 0,
      isConnected = True, reconnectAttempts = 0\<rparr> \<and>
   newEffects (openWorld (defaultOptions ''ws://host/ws''))
     (snd (step (sampleEnv bareNotification) (WsMessage 0 (ArrayBuffer sampleFrame))
        (openWorld (defaultOptions ''ws://host/ws'')))) =
     [ConsoleError ErrProcessing, CbError ''Cannot read properties of undefined (reading 'imageLength')''] \<and>
   stats (snd (step (sampleEnv (notification bigintPayload)) (WsMessage 0 (ArrayBuffer sampleFrame))
     (openWorld (defaultOptions ''ws://host/ws'')))) =
     \<lparr>imagesReceived = 1, bytesReceived = Exact 0, connectedAt = Some 0,
      isConnected = True, reconnectAttempts = 0\<rparr>"
proof -
  let ?W = "openWorld (defaultOptions ''ws://host/ws'')"
  have d1: "fst (decompressAndUnpack (sampleEnv bareNotification) sampleFrame ?W) =
      Some (Obj \<lparr>otype = Some notificationType, opayload = None\<rparr>)"
    using sample_decode_ok [of bareNotification "defaultOptions ''ws://host/ws''"]
    by (simp add: bareNotification_def)
  have d2: "fst (decompressAndUnpack (sampleEnv (notification bigintPayload)) sampleFrame ?W) =
      Some (Obj \<lparr>otype = Some notificationType, opayload = Some bigintPayload\<rparr>)"
    using sample_decode_ok [of "notification bigintPayload" "defaultOptions ''ws://host/ws''"]
    by (simp add: notification_def)
  have s1: "stats (handleMessage (sampleEnv bareNotification) (ArrayBuffer sampleFrame) ?W) =
      (stats ?W)\<lparr>imagesReceived := imagesReceived (stats ?W) + 1\<rparr>"
    by (rule handleMessage_throwing [OF d1]) simp_all
  have e1: "newEffects ?W (handleMessage (sampleEnv bareNotification) (ArrayBuffer sampleFrame) ?W) =
      [ConsoleError ErrProcessing,
       CbError (errorMessage (toError ''Failed to process message''
         (JsError ''Cannot read properties of undefined (reading 'imageLength')'')))]"
    by (rule newEffects_handleMessage_throwing [OF d1]) simp_all
  have s2: "stats (handleMessage (sampleEnv (notification bigintPayload)) (ArrayBuffer sampleFrame) ?W) =
      (stats ?W)\<lparr>imagesReceived := imagesReceived (stats ?W) + 1\<rparr>"
    by (rule handleMessage_throwing [OF d2]) (simp_all add: bigintPayload_def stats_openWorld)
  show ?thesis
    using d1 s1 e1 s2
    by (simp add: openWorld_fields stats_openWorld bareNotification_def)
qed

text \<open>
  C3, as the claim states it, at a concrete input: an open connection receives the frame
  \<open>[0, 1, 2]\<close>, which the decompressor rejects. The frame is dropped with two lines on the
  console, and the caller's \<open>onError\<close> is not called.
\<close>

theorem decode_failure_is_not_reported:
  "zstdDecompress quiet [0, 1, 2] = Inl (JsError ''zstd: bad frame'') \<and>
   newEffects (openWorld (defaultOptions ''ws://host/ws''))
     (snd (step quiet (WsMessage 0 (ArrayBuffer [0, 1, 2]))
        (openWorld (defaultOptions ''ws://host/ws'')))) =
     [ConsoleError ErrDecompressAndUnpack, ConsoleError ErrClientFailed] \<and>
   filter isCbError
     (newEffects (openWorld (defaultOptions ''ws://host/ws''))
        (snd (step quiet (WsMessage 0 (ArrayBuffer [0, 1, 2]))
           (openWorld (defaultOptions ''ws://host/ws''))))) = []"
proof -
  have z: "zstdDecompress quiet [0, 1, 2] = Inl (JsError ''zstd: bad frame'')"
    "zstdInitThrows quiet = None"
    by (simp_all add: quiet_def sampleEnv_def sampleFrame_def)
  have "newEffects (openWorld (defaultOptions ''ws://host/ws''))
     (handleMessage quiet (ArrayBuffer [0, 1, 2]) (openWorld (defaultOptions ''ws://host/ws''))) =
     (if \<not> zstdInitialized (openWorld (defaultOptions ''ws://host/ws'')) \<and>
         zstdInitThrows quiet \<noteq> None then [ConsoleError ErrZstdInit] else []) @
     [ConsoleError ErrDecompressAndUnpack, ConsoleError ErrClientFailed]"
    by (rule newEffects_decode_failure) (simp add: z)
  then show ?thesis using z by (simp add: openWorld_fields)
qed

text \<open>
  C3, amended. No frame and no error event of the transport throws out of its handler
  or changes the connection state (socket, ready states, stop flag, \<open>isConnected\<close>,
  timers). An error event of the transport is reported through \<open>onError\<close> with the text
  \<open>WebSocket error: ...\<close>; an error thrown while a decoded notification is processed is
  reported through \<open>onError\<close> with its message; a failure of \<open>mkdir\<close> or \<open>writeFile\<close> is
  reported through \<open>onError\<close> with its message. A frame that fails to decompress or to
  unpack is dropped: it is written to the console with \<open>console.error\<close>, \<open>onError\<close> is not
  called, and the stats stay as they were. A WebSocket constructor that throws in
  \<open>connect()\<close> is reported through \<open>onError\<close> and thrown again, the connection state
  unchanged.
\<close>

theorem errors_are_contained:
  "fst (step ev (WsMessage sid d) w) = Inr Unit \<and>
   lifecycle (snd (step ev (WsMessage sid d) w)) = lifecycle w \<and>
   fst (step ev (WsError sid msg) w) = Inr Unit \<and>
   lifecycle (snd (step ev (WsError sid msg) w)) = lifecycle w \<and>
   (sid < nextSock w \<longrightarrow>
      newEffects w (snd (step ev (WsError sid msg) w)) =
        [ConsoleError ErrSocket,
         CbError (''WebSocket error: '' @
                  (case msg of None \<Rightarrow> ''Unknown error''
                   | Some t \<Rightarrow> if t = [] then ''Unknown error'' else t))]) \<and>
   ((\<not> zstdInitialized w \<and> zstdInitThrows ev \<noteq> None) \<or>
    (\<exists>e. zstdDecompress ev c = Inl e) \<or>
    (\<exists>x e. zstdDecompress ev c = Inr x \<and> msgpackDecode ev x = Inl e) \<longrightarrow>
      newEffects w (handleMessage ev (ArrayBuffer c) w) =
        (if \<not> zstdInitialized w \<and> zstdInitThrows ev \<noteq> None
         then [ConsoleError ErrZstdInit] else []) @
        [ConsoleError ErrDecompressAndUnpack, ConsoleError ErrClientFailed] \<and>
      stats (handleMessage ev (ArrayBuffer c) w) = stats w) \<and>
   (fst (decompressAndUnpack ev c w) = Some (Obj object) \<and>
    otype object = Some notificationType \<and>
    ((opayload object = None \<and>
      e = JsError ''Cannot read properties of undefined (reading 'imageLength')'') \<or>
     (\<exists>p. opayload object = Some p \<and>
        plusField (bytesReceived (stats w)) (imageLength p) = Inl e)) \<longrightarrow>
      newEffects w (handleMessage ev (ArrayBuffer c) w) =
        [ConsoleError ErrProcessing,
         CbError (errorMessage (toError ''Failed to process message'' e))]) \<and>
   (plusField (bytesReceived (stats w)) (imageLength p) = Inr b \<and>
    truthy (saveDirectory (options w)) \<and> blobData p \<noteq> None \<and>
    (mkdirThrows ev = Some e' \<or> (mkdirThrows ev = None \<and> writeFileThrows ev = Some e')) \<longrightarrow>
      fst (processImage ev (Some p) w) = None \<and>
      filter isCbError (newEffects w (snd (processImage ev (Some p) w))) =
        [CbError (errorMessage (toError ''Failed to save image'' e'))]) \<and>
   (wsCtorThrows ev = Some e'' \<longrightarrow>
      fst (step ev Connect w) = Inl (toError ''Failed to connect'' e'') \<and>
      lifecycle (snd (step ev Connect w)) = lifecycle w \<and>
      newEffects w (snd (step ev Connect w)) =
        [ConsoleLog (LogConnecting (url (options w))),
         CbError (errorMessage (toError ''Failed to connect'' e''))])"
proof (intro conjI impI)
  show "fst (step ev (WsMessage sid d) w) = Inr Unit" by simp
  show "lifecycle (snd (step ev (WsMessage sid d) w)) = lifecycle w" by simp
  show "fst (step ev (WsError sid msg) w) = Inr Unit" by simp
  show "lifecycle (snd (step ev (WsError sid msg) w)) = lifecycle w" by simp
next
  assume "sid < nextSock w"
  then show "newEffects w (snd (step ev (WsError sid msg) w)) =
        [ConsoleError ErrSocket,
         CbError (''WebSocket error: '' @
                  (case msg of None \<Rightarrow> ''Unknown error''
                   | Some t \<Rightarrow> if t = [] then ''Unknown error'' else t))]"
    by (simp add: newEffects_onerror)
next
  assume a: "(\<not> zstdInitialized w \<and> zstdInitThrows ev \<noteq> None) \<or>
    (\<exists>e. zstdDecompress ev c = Inl e) \<or>
    (\<exists>x e. zstdDecompress ev c = Inr x \<and> msgpackDecode ev x = Inl e)"
  show "newEffects w (handleMessage ev (ArrayBuffer c) w) =
        (if \<not> zstdInitialized w \<and> zstdInitThrows ev \<noteq> None
         then [ConsoleError ErrZstdInit] else []) @
        [ConsoleError ErrDecompressAndUnpack, ConsoleError ErrClientFailed]"
    using a by (rule newEffects_decode_failure)
  show "stats (handleMessage ev (ArrayBuffer c) w) = stats w"
    using a by (rule stats_unchanged_on_decode_failure)
next
  assume a: "fst (decompressAndUnpack ev c w) = Some (Obj object) \<and>
    otype object = Some notificationType \<and>
    ((opayload object = None \<and>
      e = JsError ''Cannot read properties of undefined (reading 'imageLength')'') \<or>
     (\<exists>p. opayload object = Some p \<and>
        plusField (bytesReceived (stats w)) (imageLength p) = Inl e))"
  show "newEffects w (handleMessage ev (ArrayBuffer c) w) =
        [ConsoleError ErrProcessing,
         CbError (errorMessage (toError ''Failed to process message'' e))]"
    by (rule newEffects_handleMessage_throwing [of ev c w object e]) (use a in simp_all)
next
  assume a: "plusField (bytesReceived (stats w)) (imageLength p) = Inr b \<and>
    truthy (saveDirectory (options w)) \<and> blobData p \<noteq> None \<and>
    (mkdirThrows ev = Some e' \<or> (mkdirThrows ev = None \<and> writeFileThrows ev = Some e'))"
  have pf: "plusField (bytesReceived (stats w)) (imageLength p) = Inr b" using a by simp
  show "fst (processImage ev (Some p) w) = None"
    using pf by (rule processImage_Some_returns)
  show "filter isCbError (newEffects w (snd (processImage ev (Some p) w))) =
        [CbError (errorMessage (toError ''Failed to save image'' e'))]"
    by (rule cberror_save_failure [OF pf]) (use a in simp_all)
next
  assume a: "wsCtorThrows ev = Some e''"
  show "fst (step ev Connect w) = Inl (toError ''Failed to connect'' e'')"
    using a by (simp add: outcome_def connect_def Let_def)
  have s: "snd (step ev Connect w) = snd (connect ev w)"
    by (cases "connect ev w") (simp add: outcome_def split: option.splits)
  show "lifecycle (snd (step ev Connect w)) = lifecycle w"
    unfolding s using a by (rule lifecycle_connect_failure)
  show "newEffects w (snd (step ev Connect w)) =
        [ConsoleLog (LogConnecting (url (options w))),
         CbError (errorMessage (toError ''Failed to connect'' e''))]"
    unfolding s using a by (rule newEffects_connect_failure)
qed

theorem errors_are_contained_witness:
  "newEffects (openWorld (defaultOptions ''ws://host/ws''))
     (snd (step quiet (WsError 0 None) (openWorld (defaultOptions ''ws://host/ws'')))) =
     [ConsoleError ErrSocket, CbError ''WebSocket error: Unknown error''] \<and>
   lifecycle (snd (step quiet (WsMessage 0 (ArrayBuffer [0, 1, 2]))
      (openWorld (defaultOptions ''ws://host/ws'')))) =
     lifecycle (openWorld (defaultOptions ''ws://host/ws'')) \<and>
   zstdDecompress quiet [0, 1, 2] = Inl (JsError ''zstd: bad frame'') \<and>
   stats (handleMessage quiet (ArrayBuffer [0, 1, 2]) (openWorld (defaultOptions ''ws://host/ws''))) =
     stats (openWorld (defaultOptions ''ws://host/ws'')) \<and>
   newEffects (openWorld (defaultOptions ''ws://host/ws''))
     (handleMessage (sampleEnv bareNotification) (ArrayBuffer sampleFrame)
        (openWorld (defaultOptions ''ws://host/ws''))) =
     [ConsoleError ErrProcessing,
      CbError ''Cannot read properties of undefined (reading 'imageLength')''] \<and>
   mkdirThrows mkdirFails = Some (JsError ''EACCES'') \<and>
   filter isCbError
     (newEffects (openWorld (defaultOptions ''ws://host/ws''))
        (snd (processImage mkdirFails (Some samplePayload)
           (openWorld (defaultOptions ''ws://host/ws''))))) = [CbError ''EACCES''] \<and>
   wsCtorThrows ctorFails = Some (JsError ''Invalid URL'') \<and>
   fst (step ctorFails Connect (PixelSocket (defaultOptions ''ws://host/ws''))) =
     Inl (JsError ''Invalid URL'') \<and>
   newEffects (PixelSocket (defaultOptions ''ws://host/ws''))
     (snd (step ctorFails Connect (PixelSocket (defaultOptions ''ws://host/ws'')))) =
     [ConsoleLog (LogConnecting ''ws://host/ws''), CbError ''Invalid URL'']"
proof -
  let ?W = "openWorld (defaultOptions ''ws://host/ws'')"
  have d: "fst (decompressAndUnpack (sampleEnv bareNotification) sampleFrame ?W) =
      Some (Obj \<lparr>otype = Some notificationType, opayload = None\<rparr>)"
    using sample_decode_ok [of bareNotification "defaultOptions ''ws://host/ws''"]
    by (simp add: bareNotification_def)
  have z: "zstdDecompress quiet [0, 1, 2] = Inl (JsError ''zstd: bad frame'')"
    by (simp add: quiet_def sampleEnv_def sampleFrame_def)
  have m: "mkdirThrows mkdirFails = Some (JsError ''EACCES'')"
    by (simp add: mkdirFails_def)
  have c: "wsCtorThrows ctorFails = Some (JsError ''Invalid URL'')"
    by (simp add: ctorFails_def)
  have pf: "plusField (bytesReceived (stats ?W)) (imageLength samplePayload) = Inr (Exact 100)"
    by (simp add: stats_openWorld samplePayload_def safe_def)
  have o: "truthy (saveDirectory (options ?W))" "blobData samplePayload \<noteq> None"
    "url (options (PixelSocket (defaultOptions ''ws://host/ws''))) = ''ws://host/ws''"
    by (simp_all add: defaultOptions_def samplePayload_def PixelSocket_def)
  note a = errors_are_contained [where ev = quiet and sid = 0 and w = ?W and msg = None
      and c = "[0, 1, 2]" and d = "ArrayBuffer [0, 1, 2]"]
  note b = errors_are_contained [where ev = "sampleEnv bareNotification" and w = ?W
      and c = sampleFrame and object = "\<lparr>otype = Some notificationType, opayload = None\<rparr>"
      and e = "JsError ''Cannot read properties of undefined (reading 'imageLength')''"]
  note p = errors_are_contained [where ev = mkdirFails and w = ?W and p = samplePayload
      and b = "Exact 100" and e' = "JsError ''EACCES''"]
  note k = errors_are_contained [where ev = ctorFails
      and w = "PixelSocket (defaultOptions ''ws://host/ws'')" and e'' = "JsError ''Invalid URL''"]
  have 1: "newEffects ?W (snd (step quiet (WsError 0 None) ?W)) =
     [ConsoleError ErrSocket, CbError ''WebSocket error: Unknown error'']"
    using a by (simp del: step.simps add: openWorld_fields)
  have 2: "lifecycle (snd (step quiet (WsMessage 0 (ArrayBuffer [0, 1, 2])) ?W)) = lifecycle ?W"
    using a by (simp del: step.simps)
  have 3: "stats (handleMessage quiet (ArrayBuffer [0, 1, 2]) ?W) = stats ?W"
    using a z by (simp del: step.simps)
  have 4: "newEffects ?W (handleMessage (sampleEnv bareNotification) (ArrayBuffer sampleFrame) ?W) =
     [ConsoleError ErrProcessing,
      CbError ''Cannot read properties of undefined (reading 'imageLength')'']"
    using b d by (simp del: step.simps)
  have 5: "filter isCbError (newEffects ?W (snd (processImage mkdirFails (Some samplePayload) ?W))) =
     [CbError ''EACCES'']"
    using p pf o m by (simp del: step.simps)
  have 6: "fst (step ctorFails Connect (PixelSocket (defaultOptions ''ws://host/ws''))) =
     Inl (JsError ''Invalid URL'')"
    "newEffects (PixelSocket (defaultOptions ''ws://host/ws''))
     (snd (step ctorFails Connect (PixelSocket (defaultOptions ''ws://host/ws'')))) =
     [ConsoleLog (LogConnecting ''ws://host/ws''), CbError ''Invalid URL'']"
    using k c o(3) by (simp_all del: step.simps)
  show ?thesis using 1 2 z 3 4 m 5 c 6 by simp
qed

text \<open>
  C4 (the primary class at a concrete frame). A frame that decodes to the sample
  notification is counted, logged and saved; these are all its effects, and none of them
  is a call of the caller's image callback.
\<close>

theorem primary_frame_no_image_callback:
  "newEffects (openWorld (defaultOptions ''ws://host/ws''))
     (snd (step (sampleEnv (notification samplePayload)) (WsMessage 0 (ArrayBuffer sampleFrame))
        (openWorld (defaultOptions ''ws://host/ws'')))) =
   [ConsoleLog (LogReceivedImage 1 (MNumber 100)),
    Mkdir ''./received_images'',
    WriteFile ''./received_images/1000_abc.png'' samplePng,
    ConsoleLog (LogSavedImage ''./received_images/1000_abc.png'')]"
proof -
  have d: "fst (decompressAndUnpack (sampleEnv (notification samplePayload)) sampleFrame
       (openWorld (defaultOptions ''ws://host/ws''))) =
       Some (Obj \<lparr>otype = Some notificationType, opayload = Some samplePayload\<rparr>)"
    using sample_decode_ok [of "notification samplePayload" "defaultOptions ''ws://host/ws''"]
    by (simp add: notification_def)
  have pf: "plusField (bytesReceived (stats (openWorld (defaultOptions ''ws://host/ws''))))
       (imageLength samplePayload) = Inr (Exact 100)"
    by (simp add: stats_openWorld samplePayload_def safe_def)
  have o: "options (openWorld (defaultOptions ''ws://host/ws'')) = defaultOptions ''ws://host/ws''"
    by (rule options_openWorld)
  have e: "newEffects (openWorld (defaultOptions ''ws://host/ws''))
     (handleMessage (sampleEnv (notification samplePayload)) (ArrayBuffer sampleFrame)
        (openWorld (defaultOptions ''ws://host/ws''))) =
     newEffects (openWorld (defaultOptions ''ws://host/ws''))
       (snd (processImage (sampleEnv (notification samplePayload)) (Some samplePayload)
          (openWorld (defaultOptions ''ws://host/ws''))))"
    by (rule newEffects_handleMessage_notification [OF d _ _ pf]) simp_all
  show ?thesis
    by (simp add: openWorld_fields e newEffects_processImage [OF pf] stats_openWorld o)
       (simp add: samplePayload_def sampleEnv_def defaultOptions_def fileName_def
          numberToString_samples samplePng_def)
qed

text \<open>
  C5. \<open>disconnect()\<close> never throws, from any reachable state; after it no timer of either
  kind is pending and both timer fields are cleared; a second call changes nothing and
  does not throw; a reconnect timer that was pending before the call can no longer fire;
  and as long as the caller does not call \<open>connect()\<close> itself, the instance makes no
  further connect call and arms no timer.
\<close>

theorem disconnect_final_and_idempotent:
  "fst (step ev Disconnect (run pre (PixelSocket opts))) = Inr Unit \<and>
   timers (snd (step ev Disconnect (run pre (PixelSocket opts)))) = (\<lambda>_. None) \<and>
   reconnectTimeout (snd (step ev Disconnect (run pre (PixelSocket opts)))) = None \<and>
   pingTimeout (snd (step ev Disconnect (run pre (PixelSocket opts)))) = None \<and>
   step ev' Disconnect (snd (step ev Disconnect (run pre (PixelSocket opts)))) =
     (Inr Unit, snd (step ev Disconnect (run pre (PixelSocket opts)))) \<and>
   step ev' (TimerFire i) (snd (step ev Disconnect (run pre (PixelSocket opts)))) =
     (Inr Unit, snd (step ev Disconnect (run pre (PixelSocket opts)))) \<and>
   ((\<forall>x \<in> set post. snd x \<noteq> Connect) \<longrightarrow>
      filter isConnectCall
        (newEffects (snd (step ev Disconnect (run pre (PixelSocket opts))))
           (run post (snd (step ev Disconnect (run pre (PixelSocket opts)))))) = [] \<and>
      filter isTimerArm
        (newEffects (snd (step ev Disconnect (run pre (PixelSocket opts))))
           (run post (snd (step ev Disconnect (run pre (PixelSocket opts)))))) = [] \<and>
      timers (run post (snd (step ev Disconnect (run pre (PixelSocket opts))))) = (\<lambda>_. None))"
proof -
  let ?w = "run pre (PixelSocket opts)"
  let ?wd = "snd (step ev Disconnect ?w)"
  have ti: "timer_inv ?w"
    by (simp add: timer_inv_run timer_inv_PixelSocket)
  have wd: "?wd = disconnect ?w" by simp
  have h: "halted ?wd" using ti by (simp add: halted_disconnect)
  have t: "timers ?wd = (\<lambda>_. None)" using ti by (simp add: timers_disconnect)
  have post: "filter isConnectCall (newEffects ?wd (run post ?wd)) = [] \<and>
      filter isTimerArm (newEffects ?wd (run post ?wd)) = [] \<and>
      timers (run post ?wd) = (\<lambda>_. None)"
    if nc: "\<forall>x \<in> set post. snd x \<noteq> Connect"
  proof -
    obtain xs where xs: "halted (run post ?wd)" "effects (run post ?wd) = effects ?wd @ xs"
      "filter isConnectCall xs = []" "filter isTimerArm xs = []"
      using halted_run [OF h nc] by blast
    have "newEffects ?wd (run post ?wd) = xs" using xs(2) by (rule newEffects_append)
    then show ?thesis using xs by (simp add: halted_def)
  qed
  show ?thesis
    unfolding wd using t post
    by (simp add: disconnect_fields disconnect_idem timerFire_def)
qed

theorem disconnect_final_and_idempotent_witness:
  "timers droppedWorld 1 = Some (Timeout 5000) \<and>
   fst (step quiet Disconnect droppedWorld) = Inr Unit \<and>
   timers (snd (step quiet Disconnect droppedWorld)) = (\<lambda>_. None) \<and>
   step quiet Disconnect (snd (step quiet Disconnect droppedWorld)) =
     (Inr Unit, snd (step quiet Disconnect droppedWorld)) \<and>
   step quiet (TimerFire 1) (snd (step quiet Disconnect droppedWorld)) =
     (Inr Unit, snd (step quiet Disconnect droppedWorld)) \<and>
   filter isConnectCall
     (newEffects (snd (step quiet Disconnect droppedWorld))
        (run [(quiet, TimerFire 1), (quiet, WsError 0 None), (quiet, Disconnect), (quiet, TimerFire 0)]
           (snd (step quiet Disconnect droppedWorld)))) = [] \<and>
   timers (run [(quiet, TimerFire 1), (quiet, WsError 0 None), (quiet, Disconnect), (quiet, TimerFire 0)]
           (snd (step quiet Disconnect droppedWorld))) = (\<lambda>_. None)"
  using disconnect_final_and_idempotent
    [of quiet "[(quiet, Connect), (quiet, WsOpen 0), (quiet, WsClosed 0 1006 ''lost'')]"
        "defaultOptions ''ws://host/ws''" quiet 1
        "[(quiet, TimerFire 1), (quiet, WsError 0 None), (quiet, Disconnect), (quiet, TimerFire 0)]"]
  unfolding droppedWorld_def [symmetric]
  by (simp del: run.simps step.simps add: droppedWorld_fields)




text \<open>
  C7 (the legacy class at a concrete frame). The JSON envelope
  \<open>{"image": ..., "metadata": {"timestamp": 1700000000000, "format": "png"}}\<close> reaches
  \<open>saveImage\<close> with a timestamp that is no \<open>Date\<close>: the directory is made, \<open>getTime\<close>
  throws, no file is written and the caller is told the \<open>TypeError\<close>. The same envelope
  without the timestamp is written to \<open>./images/1700000000000.png\<close>.
\<close>

theorem stamped_envelope_is_not_saved:
  "newEffects (openWorld (legacy_defaultOptions ''ws://host/ws''))
     (snd (legacy_step quiet (LWsMessage 0 stampedEnvelope)
        (openWorld (legacy_defaultOptions ''ws://host/ws'')))) =
   [ConsoleLog (LogReceivedImage 1 (MNumber 4)),
    CbImage samplePng
      \<lparr>mtimestamp = TsValue, mformat = Some ''png'', mmimeType = None, mfilename = None\<rparr>,
    Mkdir ''./images'',
    ConsoleError ErrSaving,
    CbError ''metadata.timestamp.getTime is not a function''] \<and>
   newEffects (openWorld (legacy_defaultOptions ''ws://host/ws''))
     (snd (legacy_step quiet (LWsMessage 0 plainEnvelope)
        (openWorld (legacy_defaultOptions ''ws://host/ws'')))) =
   [ConsoleLog (LogReceivedImage 1 (MNumber 4)),
    CbImage samplePng
      \<lparr>mtimestamp = TsDate (Some 1700000000000), mformat = Some ''png'', mmimeType = None,
       mfilename = None\<rparr>,
    Mkdir ''./images'',
    WriteFile ''./images/1700000000000.png'' samplePng,
    ConsoleLog (LogSavedImage ''./images/1700000000000.png'')]"
proof -
  have o: "options (openWorld (legacy_defaultOptions ''ws://host/ws'')) =
      legacy_defaultOptions ''ws://host/ws''"
    by (rule options_openWorld)
  have q: "now quiet = 1700000000000" "mkdirThrows quiet = None" "writeFileThrows quiet = None"
    by (simp_all add: quiet_def sampleEnv_def)
  show ?thesis
    unfolding legacy_step_message_open snd_conv stampedEnvelope_def plainEnvelope_def
    by (simp add: legacy_handleMessage_def newEffects_legacy_processImage envelope_metadata
          o q stats_openWorld legacy_defaultOptions_def legacy_fileName_def
          numberToString_samples samplePng_def)
qed



text \<open>
  C9. After \<open>disconnect()\<close> the stop flag stays set whatever happens later, also when the
  caller connects again and the new connection opens and closes: no reconnect timer is
  armed any more and none is pending.
\<close>

theorem no_reconnect_after_disconnect:
  "shouldReconnect (run post (snd (step ev Disconnect (run pre (PixelSocket opts))))) = False \<and>
   filter isSetTimeout
     (newEffects (snd (step ev Disconnect (run pre (PixelSocket opts))))
        (run post (snd (step ev Disconnect (run pre (PixelSocket opts)))))) = [] \<and>
   noTimeout (run post (snd (step ev Disconnect (run pre (PixelSocket opts)))))"
proof -
  let ?wd = "snd (step ev Disconnect (run pre (PixelSocket opts)))"
  have "timer_inv (run pre (PixelSocket opts))"
    by (simp add: timer_inv_run timer_inv_PixelSocket)
  then have s: "stopped ?wd" by (simp add: stopped_disconnect)
  obtain xs where xs: "stopped (run post ?wd)" "effects (run post ?wd) = effects ?wd @ xs"
    "filter isSetTimeout xs = []"
    using stopped_run [OF s, of post] by blast
  have "newEffects ?wd (run post ?wd) = xs"
    using xs(2) by (rule newEffects_append)
  then show ?thesis using xs by (simp add: stopped_def)
qed

theorem no_reconnect_after_disconnect_witness:
  "socks reconnectedWorld 1 = CLOSED \<and> autoReconnect (options reconnectedWorld) = True \<and>
   shouldReconnect reconnectedWorld = False \<and>
   filter isSetTimeout
     (newEffects
        (snd (step quiet Disconnect
          (run [(quiet, Connect), (quiet, WsOpen 0)] (PixelSocket (defaultOptions ''ws://host/ws'')))))
        reconnectedWorld) = [] \<and>
   timers reconnectedWorld = (\<lambda>_. None)(1 \<mapsto> Interval 20000)"
  using no_reconnect_after_disconnect
    [of "[(quiet, Connect), (quiet, WsOpen 1), (quiet, WsClosed 1 1006 ''gone'')]" quiet
        "[(quiet, Connect), (quiet, WsOpen 0)]" "defaultOptions ''ws://host/ws''"]
        reconnectedWorld_fields
  unfolding reconnectedWorld_def [symmetric]
  by (simp del: run.simps step.simps)

text \<open>
  C10. On the primary path a payload whose \<open>imageLength\<close> is a Number \<open>n\<close> adds \<open>n\<close> to
  \<open>bytesReceived\<close>, whatever \<open>blobData\<close> holds, as long as the operands and the sum are
  integers that a Number holds exactly; a payload whose \<open>blobData\<close> is null still counts
  as one image and adds its \<open>imageLength\<close>, while nothing is persisted.
\<close>

theorem bytes_from_declared_length:
  "fst (decompressAndUnpack ev c w) = Some (Obj object) \<and>
   otype object = Some notificationType \<and> opayload object = Some p \<and>
   imageLength p = MNumber n \<and> safe n \<and>
   bytesReceived (stats w) = Exact b \<and> safe (b + n) \<longrightarrow>
     imagesReceived (stats (handleMessage ev (ArrayBuffer c) w)) = imagesReceived (stats w) + 1 \<and>
     bytesReceived (stats (handleMessage ev (ArrayBuffer c) w)) = Exact (b + n) \<and>
     (blobData p = None \<longrightarrow>
        filter isPersist (newEffects w (handleMessage ev (ArrayBuffer c) w)) = [])"
proof (intro impI conjI)
  assume a: "fst (decompressAndUnpack ev c w) = Some (Obj object) \<and>
   otype object = Some notificationType \<and> opayload object = Some p \<and>
   imageLength p = MNumber n \<and> safe n \<and>
   bytesReceived (stats w) = Exact b \<and> safe (b + n)"
  then have pf: "plusField (bytesReceived (stats w)) (imageLength p) = Inr (Exact (b + n))"
    by simp
  have d: "fst (decompressAndUnpack ev c w) = Some (Obj object)" using a by simp
  have t: "otype object = Some notificationType" using a by simp
  have pl: "opayload object = Some p" using a by simp
  have s: "stats (handleMessage ev (ArrayBuffer c) w) =
     (stats w)\<lparr>imagesReceived := imagesReceived (stats w) + 1,
               bytesReceived := Exact (b + n)\<rparr>"
    using d t pl pf by (rule handleMessage_notification)
  show "imagesReceived (stats (handleMessage ev (ArrayBuffer c) w)) = imagesReceived (stats w) + 1"
    using s by simp
  show "bytesReceived (stats (handleMessage ev (ArrayBuffer c) w)) = Exact (b + n)"
    using s by simp
  assume bl: "blobData p = None"
  have "newEffects w (handleMessage ev (ArrayBuffer c) w) =
          newEffects w (snd (processImage ev (Some p) w))"
    using d t pl pf by (rule newEffects_handleMessage_notification)
  then show "filter isPersist (newEffects w (handleMessage ev (ArrayBuffer c) w)) = []"
    using bl by (simp add: newEffects_processImage [OF pf])
qed

theorem bytes_from_declared_length_witness:
  "fst (decompressAndUnpack (sampleEnv (notification externalPayload)) sampleFrame
       (openWorld (defaultOptions ''ws://host/ws''))) = Some (notification externalPayload) \<and>
   imageLength externalPayload = MNumber 45678 \<and> blobData externalPayload = None \<and>
   bytesReceived (stats (openWorld (defaultOptions ''ws://host/ws''))) = Exact 0 \<and>
   imagesReceived (stats (handleMessage (sampleEnv (notification externalPayload))
       (ArrayBuffer sampleFrame) (openWorld (defaultOptions ''ws://host/ws'')))) = 1 \<and>
   bytesReceived (stats (handleMessage (sampleEnv (notification externalPayload))
       (ArrayBuffer sampleFrame) (openWorld (defaultOptions ''ws://host/ws'')))) = Exact 45678 \<and>
   filter isPersist (newEffects (openWorld (defaultOptions ''ws://host/ws''))
       (handleMessage (sampleEnv (notification externalPayload))
       (ArrayBuffer sampleFrame) (openWorld (defaultOptions ''ws://host/ws'')))) = [] \<and>
   blobData samplePayload = Some samplePng \<and> int (length samplePng) = 4 \<and>
   bytesReceived (stats (handleMessage (sampleEnv (notification samplePayload))
       (ArrayBuffer sampleFrame) (openWorld (defaultOptions ''ws://host/ws'')))) = Exact 100"
  using bytes_from_declared_length
          [of "sampleEnv (notification externalPayload)" sampleFrame
              "openWorld (defaultOptions ''ws://host/ws'')"
              "\<lparr>otype = Some notificationType, opayload = Some externalPayload\<rparr>" externalPayload
              45678 0]
        bytes_from_declared_length
          [of "sampleEnv (notification samplePayload)" sampleFrame
              "openWorld (defaultOptions ''ws://host/ws'')"
              "\<lparr>otype = Some notificationType, opayload = Some samplePayload\<rparr>" samplePayload
              100 0]
        sample_decode_ok [of "notification externalPayload" "defaultOptions ''ws://host/ws''"]
        sample_decode_ok [of "notification samplePayload" "defaultOptions ''ws://host/ws''"]
  by (simp add: stats_openWorld notification_def samplePayload_def externalPayload_def
        samplePng_def safe_def)

end
